theory Spec2Isabelle
  imports Main "HOL-Library.Sublist"
begin

section \<open>JavaScript values\<close>

text \<open>
  The server is TypeScript: tool arguments and platform responses are untyped JSON
  values, and the handlers read them with property access, truthiness tests and template
  literals. A value is one of the JSON kinds, or \<open>undefined\<close>. Numbers are integers
  (the arguments and counts the handlers compute with), with \<open>Infinity\<close> and \<open>NaN\<close>
  for what a division by zero gives; strings are byte strings, so the
  string operations below are those of JavaScript on ASCII text. An object is the list
  of its own properties, and reading a property finds its first binding.
\<close>

datatype jsval =
    JUndefined
  | JNull
  | JBool bool
  | JNum int
  | JInfinity
  | JNaN
  | JStr string
  | JArr "jsval list"
  | JObj "(string \<times> jsval) list"

datatype error_code = InvalidParams | MethodNotFound

text \<open>
  What a \<open>throw\<close> (or a rejected promise) carries. \<open>AxiosError d m\<close> is the HTTP
  library's error: \<open>d\<close> is \<open>error.response?.data\<close> (\<open>JUndefined\<close> when there is no
  response) and \<open>m\<close> is \<open>error.message\<close>. \<open>AzureDevOpsError\<close> is the local error
  class of common/errors, \<open>McpError c m\<close> the protocol error of the SDK as
  \<open>new McpError(c, m)\<close> constructs it, \<open>TypeError\<close> what
  the runtime raises on a property read of \<open>undefined\<close>/\<open>null\<close> or a call of a
  non-function, and \<open>Error\<close> a plain \<open>new Error(message)\<close>.
\<close>

datatype exn =
    AxiosError jsval string
  | AzureDevOpsError string
  | McpError error_code string
  | TypeError
  | Error string

fun truthy :: "jsval \<Rightarrow> bool" where
  "truthy JUndefined = False"
| "truthy JNull = False"
| "truthy (JBool b) = b"
| "truthy (JNum n) = (n \<noteq> 0)"
| "truthy JInfinity = True"
| "truthy JNaN = False"
| "truthy (JStr s) = (s \<noteq> [])"
| "truthy (JArr xs) = True"
| "truthy (JObj kvs) = True"

fun nullish :: "jsval \<Rightarrow> bool" where
  "nullish JUndefined = True"
| "nullish JNull = True"
| "nullish v = False"

text \<open>\<open>a || b\<close> and \<open>a ?? b\<close> on values.\<close>

definition js_or :: "jsval \<Rightarrow> jsval \<Rightarrow> jsval" where
  "js_or a b = (if truthy a then a else b)"

definition js_coalesce :: "jsval \<Rightarrow> jsval \<Rightarrow> jsval" where
  "js_coalesce a b = (if nullish a then b else a)"

subsection \<open>Conversion to string\<close>

fun digits :: "nat \<Rightarrow> string" where
  "digits n =
     (if n < 10 then [''0123456789'' ! n]
      else digits (n div 10) @ [''0123456789'' ! (n mod 10)])"

declare digits.simps [simp del]

definition string_of_int :: "int \<Rightarrow> string" where
  "string_of_int i = (if i < 0 then ''-'' @ digits (nat (- i)) else digits (nat i))"

text \<open>
  \<open>to_string\<close> is the conversion a template literal applies to a substituted value.
  An array joins its elements with commas (\<open>null\<close> and \<open>undefined\<close> elements give
  the empty string); a plain object gives \<open>[object Object]\<close>, unless it has an own
  property \<open>toString\<close>: a JSON value is never a function, so the conversion raises.
  \<open>join_elems\<close> is also \<open>Array.prototype.join(',')\<close>.
\<close>

fun to_string :: "jsval \<Rightarrow> exn + string"
  and join_elems :: "jsval list \<Rightarrow> exn + string" where
  "to_string JUndefined = Inr ''undefined''"
| "to_string JNull = Inr ''null''"
| "to_string (JBool b) = Inr (if b then ''true'' else ''false'')"
| "to_string (JNum n) = Inr (string_of_int n)"
| "to_string JInfinity = Inr ''Infinity''"
| "to_string JNaN = Inr ''NaN''"
| "to_string (JStr s) = Inr s"
| "to_string (JArr xs) = join_elems xs"
| "to_string (JObj kvs) =
     (if map_of kvs ''toString'' \<noteq> None then Inl TypeError else Inr ''[object Object]'')"
| "join_elems [] = Inr []"
| "join_elems (x # xs) =
     (case (if nullish x then Inr [] else to_string x) of
        Inl e \<Rightarrow> Inl e
      | Inr s \<Rightarrow>
          (if xs = [] then Inr s
           else (case join_elems xs of Inl e \<Rightarrow> Inl e | Inr t \<Rightarrow> Inr (s @ '','' @ t))))"

text \<open>A template literal: literal chunks and substitutions, left to right.\<close>

datatype piece = Lit string | Sub jsval

fun template :: "piece list \<Rightarrow> exn + string" where
  "template [] = Inr []"
| "template (Lit s # ps) =
     (case template ps of Inl e \<Rightarrow> Inl e | Inr t \<Rightarrow> Inr (s @ t))"
| "template (Sub v # ps) =
     (case to_string v of
        Inl e \<Rightarrow> Inl e
      | Inr s \<Rightarrow> (case template ps of Inl e \<Rightarrow> Inl e | Inr t \<Rightarrow> Inr (s @ t)))"

subsection \<open>Property access and string methods\<close>

text \<open>
  \<open>get_prop v k\<close> is \<open>v.k\<close> for the data properties the handlers read (\<open>value\<close>,
  \<open>defaultBranch\<close>, \<open>commitId\<close>, \<open>name\<close>, \<open>length\<close>, ...): a \<open>TypeError\<close> on
  \<open>undefined\<close> and \<open>null\<close>, \<open>undefined\<close> for a property that is not there.
  \<open>get_first v\<close> is \<open>v[0]\<close>.
\<close>

fun get_prop :: "jsval \<Rightarrow> string \<Rightarrow> exn + jsval" where
  "get_prop JUndefined k = Inl TypeError"
| "get_prop JNull k = Inl TypeError"
| "get_prop (JObj kvs) k = Inr (case map_of kvs k of None \<Rightarrow> JUndefined | Some v \<Rightarrow> v)"
| "get_prop (JArr xs) k = Inr (if k = ''length'' then JNum (int (length xs)) else JUndefined)"
| "get_prop (JStr s) k = Inr (if k = ''length'' then JNum (int (length s)) else JUndefined)"
| "get_prop v k = Inr JUndefined"

fun get_first :: "jsval \<Rightarrow> exn + jsval" where
  "get_first JUndefined = Inl TypeError"
| "get_first JNull = Inl TypeError"
| "get_first (JArr xs) = Inr (case xs of [] \<Rightarrow> JUndefined | x # _ \<Rightarrow> x)"
| "get_first (JStr s) = Inr (case s of [] \<Rightarrow> JUndefined | c # _ \<Rightarrow> JStr [c])"
| "get_first (JObj kvs) = Inr (case map_of kvs ''0'' of None \<Rightarrow> JUndefined | Some v \<Rightarrow> v)"
| "get_first v = Inr JUndefined"

text \<open>
  The string methods exist on strings only: on any other value the method is
  \<open>undefined\<close> (or the receiver is), and the call raises.
\<close>

fun starts_with :: "jsval \<Rightarrow> string \<Rightarrow> exn + bool" where
  "starts_with (JStr s) p = Inr (prefix p s)"
| "starts_with v p = Inl TypeError"

text \<open>\<open>s.replace(pat, '')\<close> with a string pattern: the first occurrence is removed.\<close>

fun remove_first :: "string \<Rightarrow> string \<Rightarrow> string" where
  "remove_first pat [] = []"
| "remove_first pat (c # cs) =
     (if prefix pat (c # cs) then drop (length pat) (c # cs) else c # remove_first pat cs)"

fun js_replace :: "jsval \<Rightarrow> string \<Rightarrow> exn + jsval" where
  "js_replace (JStr s) pat = Inr (JStr (remove_first pat s))"
| "js_replace v pat = Inl TypeError"

definition lower_char :: "char \<Rightarrow> char" where
  "lower_char c =
     (if 65 \<le> (of_char c :: nat) \<and> (of_char c :: nat) \<le> 90
      then char_of ((of_char c :: nat) + 32) else c)"

fun to_lower_case :: "jsval \<Rightarrow> exn + string" where
  "to_lower_case (JStr s) = Inr (map lower_char s)"
| "to_lower_case v = Inl TypeError"

text \<open>\<open>s.includes(t)\<close>: \<open>t\<close> occurs in \<open>s\<close> as a contiguous substring.\<close>

fun str_includes :: "string \<Rightarrow> string \<Rightarrow> bool" where
  "str_includes [] t = (t = [])"
| "str_includes (c # cs) t = (prefix t (c # cs) \<or> str_includes cs t)"

text \<open>
  \<open>encodeURIComponent\<close>: the argument is converted to a string; every byte but the
  unreserved ones is written as a percent sign and two upper-case hexadecimal digits.
\<close>

definition unreserved :: "char \<Rightarrow> bool" where
  "unreserved c =
     (let n = (of_char c :: nat) in
        (65 \<le> n \<and> n \<le> 90) \<or> (97 \<le> n \<and> n \<le> 122) \<or> (48 \<le> n \<and> n \<le> 57)
        \<or> c \<in> set ''-_.!~*'()'')"

definition percent_encode :: "char \<Rightarrow> string" where
  "percent_encode c =
     (if unreserved c then [c]
      else [CHR ''%'', ''0123456789ABCDEF'' ! ((of_char c :: nat) div 16),
            ''0123456789ABCDEF'' ! ((of_char c :: nat) mod 16)])"

definition encodeURIComponent :: "jsval \<Rightarrow> exn + string" where
  "encodeURIComponent v =
     (case to_string v of Inl e \<Rightarrow> Inl e | Inr s \<Rightarrow> Inr (concat (map percent_encode s)))"

section \<open>The network and the handlers' effects\<close>

text \<open>
  A handler talks to the platform through the HTTP client, whose instance carries the
  base URL and the authorization header of the process; a request is its method, the
  URL relative to the base and the body. The platform is a function \<open>net\<close> from the
  requests answered so far and the current request to the outcome: \<open>Inr d\<close> when the
  promise resolves with \<open>response.data = d\<close>, \<open>Inl e\<close> when it rejects with \<open>e\<close>.
  A computation takes the log of the requests issued so far and returns its outcome
  (\<open>Inl\<close> for a \<open>throw\<close>) with the extended log.
\<close>

datatype http_method = GET | POST | PUT

record request =
  meth :: http_method
  url :: string
  body :: jsval

type_synonym net = "request list \<Rightarrow> request \<Rightarrow> exn + jsval"

type_synonym 'a io = "request list \<Rightarrow> (exn + 'a) \<times> request list"

definition return :: "'a \<Rightarrow> 'a io" where
  "return x log = (Inr x, log)"

definition throw :: "exn \<Rightarrow> 'a io" where
  "throw e log = (Inl e, log)"

definition lift :: "exn + 'a \<Rightarrow> 'a io" where
  "lift r log = (r, log)"

definition bind_io :: "'a io \<Rightarrow> ('a \<Rightarrow> 'b io) \<Rightarrow> 'b io" where
  "bind_io m f log = (case m log of (Inl e, log') \<Rightarrow> (Inl e, log') | (Inr x, log') \<Rightarrow> f x log')"

definition http :: "net \<Rightarrow> request \<Rightarrow> jsval io" where
  "http net q log = (net log q, log @ [q])"

text \<open>
  \<open>axiosInstance.get(url)\<close>, \<open>.post(url, data)\<close> and \<open>.put(url, data)\<close>, awaited, giving
  \<open>response.data\<close>. The URL is a template literal and the body an object literal that
  may hold template literals: both are evaluated before the request is issued.
\<close>

definition axios_get :: "net \<Rightarrow> piece list \<Rightarrow> jsval io" where
  "axios_get net u =
     bind_io (lift (template u)) (\<lambda>s. http net \<lparr>meth = GET, url = s, body = JUndefined\<rparr>)"

definition axios_post :: "net \<Rightarrow> piece list \<Rightarrow> exn + jsval \<Rightarrow> jsval io" where
  "axios_post net u b =
     bind_io (lift (template u)) (\<lambda>s.
     bind_io (lift b) (\<lambda>d. http net \<lparr>meth = POST, url = s, body = d\<rparr>))"

definition axios_put :: "net \<Rightarrow> piece list \<Rightarrow> exn + jsval \<Rightarrow> jsval io" where
  "axios_put net u b =
     bind_io (lift (template u)) (\<lambda>s.
     bind_io (lift b) (\<lambda>d. http net \<lparr>meth = PUT, url = s, body = d\<rparr>))"

text \<open>A template literal as a property value of an object literal.\<close>

definition str_field :: "piece list \<Rightarrow> (string \<Rightarrow> exn + 'a) \<Rightarrow> exn + 'a" where
  "str_field ps k = (case template ps of Inl e \<Rightarrow> Inl e | Inr s \<Rightarrow> k s)"

subsection \<open>The error translator\<close>

text \<open>
  Every operation handler is one \<open>try\<close> block with the same \<open>catch\<close>:
  \<^verbatim>\<open>
  catch (error) {
    if (axios.isAxiosError(error)) {
      throw new AzureDevOpsError(
        `Azure DevOps API error: ${error.response?.data?.message ?? error.message}`);
    }
    throw error;
  }
  \<close>
  \<open>opt_prop d k\<close> is \<open>d?.k\<close>.
\<close>

definition opt_prop :: "jsval \<Rightarrow> string \<Rightarrow> jsval" where
  "opt_prop d k = (case get_prop d k of Inl e \<Rightarrow> JUndefined | Inr v \<Rightarrow> v)"

definition api_error_prefix :: string where
  "api_error_prefix = ''Azure DevOps API error: ''"

definition rewrap :: "exn \<Rightarrow> exn" where
  "rewrap error =
     (case error of
        AxiosError d m \<Rightarrow>
          (case to_string (js_coalesce (opt_prop d ''message'') (JStr m)) of
             Inl e \<Rightarrow> e
           | Inr s \<Rightarrow> AzureDevOpsError (api_error_prefix @ s))
      | _ \<Rightarrow> error)"

definition try_rewrap :: "'a io \<Rightarrow> 'a io" where
  "try_rewrap m log =
     (case m log of (Inl e, log') \<Rightarrow> (Inl (rewrap e), log') | (Inr x, log') \<Rightarrow> (Inr x, log'))"

section \<open>The operation handlers\<close>

subsection \<open>operations/commits, operations/pulls, operations/issues\<close>

definition getCommits :: "net \<Rightarrow> jsval \<Rightarrow> jsval \<Rightarrow> jsval \<Rightarrow> jsval io" where
  "getCommits net projectId repositoryId branch =
     try_rewrap
       (axios_get net
          [Sub projectId, Lit ''/_apis/git/repositories/'', Sub repositoryId,
           Lit ''/commits?searchCriteria.itemVersion.version='', Sub branch,
           Lit ''&api-version=7.1''])"

definition createPullRequest ::
  "net \<Rightarrow> jsval \<Rightarrow> jsval \<Rightarrow> jsval \<Rightarrow> jsval \<Rightarrow> jsval \<Rightarrow> jsval \<Rightarrow> jsval io" where
  "createPullRequest net projectId repositoryId sourceBranch targetBranch title description =
     try_rewrap
       (axios_post net
          [Sub projectId, Lit ''/_apis/git/repositories/'', Sub repositoryId,
           Lit ''/pullrequests?api-version=7.1'']
          (str_field [Lit ''refs/heads/'', Sub sourceBranch] (\<lambda>src.
           str_field [Lit ''refs/heads/'', Sub targetBranch] (\<lambda>tgt.
             Inr (JObj [(''sourceRefName'', JStr src), (''targetRefName'', JStr tgt),
                        (''title'', title), (''description'', description)])))))"

definition getIssue :: "net \<Rightarrow> jsval \<Rightarrow> jsval \<Rightarrow> jsval \<Rightarrow> jsval io" where
  "getIssue net projectId repositoryId issueId =
     try_rewrap
       (axios_get net
          [Sub projectId, Lit ''/_apis/wit/workitems/'', Sub issueId, Lit ''?api-version=7.1''])"

definition addIssueComment :: "net \<Rightarrow> jsval \<Rightarrow> jsval \<Rightarrow> jsval \<Rightarrow> jsval \<Rightarrow> jsval io" where
  "addIssueComment net projectId repositoryId issueId comment =
     try_rewrap
       (axios_post net
          [Sub projectId, Lit ''/_apis/wit/workitems/'', Sub issueId,
           Lit ''/comments?api-version=7.1'']
          (Inr (JObj [(''text'', comment)])))"

subsection \<open>operations/branches\<close>

definition getBranches :: "net \<Rightarrow> jsval \<Rightarrow> jsval \<Rightarrow> jsval io" where
  "getBranches net projectId repositoryId =
     try_rewrap
       (axios_get net
          [Sub projectId, Lit ''/_apis/git/repositories/'', Sub repositoryId,
           Lit ''/refs?filter=heads&api-version=7.1''])"

definition getDefaultBranch :: "net \<Rightarrow> jsval \<Rightarrow> jsval \<Rightarrow> jsval io" where
  "getDefaultBranch net projectId repositoryId =
     try_rewrap
       (bind_io
          (axios_get net
             [Sub projectId, Lit ''/_apis/git/repositories/'', Sub repositoryId,
              Lit ''?api-version=7.1''])
          (\<lambda>data. lift (get_prop data ''defaultBranch'')))"

text \<open>
  \<open>!response.data.value || response.data.value.length === 0\<close>: a truthy value is not
  \<open>undefined\<close> or \<open>null\<close>, so reading its \<open>length\<close> does not raise.
\<close>

definition no_value :: "jsval \<Rightarrow> bool" where
  "no_value v = (\<not> truthy v \<or> get_prop v ''length'' = Inr (JNum 0))"

definition format_branch :: "jsval \<Rightarrow> exn + jsval" where
  "format_branch branchName =
     (case starts_with branchName ''refs/heads/'' of
        Inl e \<Rightarrow> Inl e
      | Inr True \<Rightarrow> Inr branchName
      | Inr False \<Rightarrow> str_field [Lit ''refs/heads/'', Sub branchName] (\<lambda>s. Inr (JStr s)))"

definition getBranchRef :: "net \<Rightarrow> jsval \<Rightarrow> jsval \<Rightarrow> jsval \<Rightarrow> jsval io" where
  "getBranchRef net projectId repositoryId branchName =
     try_rewrap
       (bind_io (lift (format_branch branchName)) (\<lambda>formattedBranchName.
        bind_io (lift (encodeURIComponent formattedBranchName)) (\<lambda>enc.
        bind_io
          (axios_get net
             [Sub projectId, Lit ''/_apis/git/repositories/'', Sub repositoryId,
              Lit ''/refs?filter='', Lit enc, Lit ''&api-version=7.1''])
          (\<lambda>data.
        bind_io (lift (get_prop data ''value'')) (\<lambda>v.
          if no_value v then
            bind_io (lift (template [Lit ''Branch '', Sub branchName, Lit '' not found'']))
              (\<lambda>m. throw (AzureDevOpsError m))
          else lift (get_first v))))))"

definition getLatestCommit :: "net \<Rightarrow> jsval \<Rightarrow> jsval \<Rightarrow> jsval \<Rightarrow> jsval io" where
  "getLatestCommit net projectId repositoryId branchName =
     try_rewrap
       (bind_io
          (axios_get net
             [Sub projectId, Lit ''/_apis/git/repositories/'', Sub repositoryId,
              Lit ''/commits?searchCriteria.itemVersion.version='', Sub branchName,
              Lit ''&searchCriteria.$top=1&api-version=7.1''])
          (\<lambda>data.
        bind_io (lift (get_prop data ''value'')) (\<lambda>v.
          if no_value v then
            bind_io (lift (template [Lit ''No commits found for branch '', Sub branchName]))
              (\<lambda>m. throw (AzureDevOpsError m))
          else
            bind_io (lift (get_first v)) (\<lambda>c. lift (get_prop c ''commitId'')))))"

definition zero_object_id :: string where
  "zero_object_id = ''0000000000000000000000000000000000000000''"

text \<open>
  \<open>fromBranch || (await getDefaultBranch(projectId, repositoryId)).replace('refs/heads/', '')\<close>:
  the default branch is read only when \<open>fromBranch\<close> is falsy.
\<close>

definition createBranch :: "net \<Rightarrow> jsval \<Rightarrow> jsval \<Rightarrow> jsval \<Rightarrow> jsval \<Rightarrow> jsval io" where
  "createBranch net projectId repositoryId branchName fromBranch =
     try_rewrap
       (bind_io
          (if truthy fromBranch then return fromBranch
           else bind_io (getDefaultBranch net projectId repositoryId)
                  (\<lambda>d. lift (js_replace d ''refs/heads/'')))
          (\<lambda>sourceBranch.
        bind_io (getLatestCommit net projectId repositoryId sourceBranch) (\<lambda>commitId.
        bind_io
          (axios_post net
             [Sub projectId, Lit ''/_apis/git/repositories/'', Sub repositoryId,
              Lit ''/refs?api-version=7.1'']
             (str_field [Lit ''refs/heads/'', Sub branchName] (\<lambda>n.
                Inr (JObj [(''name'', JStr n), (''newObjectId'', commitId),
                           (''oldObjectId'', JStr zero_object_id)]))))
          (\<lambda>data.
        bind_io (lift (get_prop data ''value'')) (\<lambda>v. lift (get_first v))))))"

definition updateBranch ::
  "net \<Rightarrow> jsval \<Rightarrow> jsval \<Rightarrow> jsval \<Rightarrow> jsval \<Rightarrow> jsval \<Rightarrow> jsval io" where
  "updateBranch net projectId repositoryId branchName newCommitId oldCommitId =
     try_rewrap
       (bind_io (lift (format_branch branchName)) (\<lambda>formattedBranchName.
        bind_io
          (axios_post net
             [Sub projectId, Lit ''/_apis/git/repositories/'', Sub repositoryId,
              Lit ''/refs?api-version=7.1'']
             (Inr (JObj [(''name'', formattedBranchName), (''newObjectId'', newCommitId),
                         (''oldObjectId'', oldCommitId)])))
          (\<lambda>data.
        bind_io (lift (get_prop data ''value'')) (\<lambda>v. lift (get_first v)))))"

subsection \<open>operations/files\<close>

definition getFileContent :: "net \<Rightarrow> jsval \<Rightarrow> jsval \<Rightarrow> jsval \<Rightarrow> jsval \<Rightarrow> jsval io" where
  "getFileContent net projectId repositoryId filePath branch =
     try_rewrap
       (axios_get net
          [Sub projectId, Lit ''/_apis/git/repositories/'', Sub repositoryId,
           Lit ''/items?path='', Sub filePath, Lit ''&versionDescriptor.version='', Sub branch,
           Lit ''&api-version=7.1''])"

definition edit_change :: "jsval \<Rightarrow> jsval \<Rightarrow> jsval" where
  "edit_change path content =
     JObj [(''changeType'', JStr ''edit''),
           (''item'', JObj [(''path'', path)]),
           (''newContent'', JObj [(''contentType'', JStr ''rawtext''), (''content'', content)])]"

definition push_body :: "string \<Rightarrow> jsval \<Rightarrow> jsval \<Rightarrow> jsval \<Rightarrow> jsval" where
  "push_body ref oldObjectId commitMessage changes =
     JObj [(''refUpdates'', JArr [JObj [(''name'', JStr ref), (''oldObjectId'', oldObjectId)]]),
           (''commits'', JArr [JObj [(''comment'', commitMessage), (''changes'', changes)]])]"

definition createOrUpdateFile ::
  "net \<Rightarrow> jsval \<Rightarrow> jsval \<Rightarrow> jsval \<Rightarrow> jsval \<Rightarrow> jsval \<Rightarrow> jsval \<Rightarrow> jsval io" where
  "createOrUpdateFile net projectId repositoryId filePath content commitMessage branch =
     try_rewrap
       (bind_io
          (axios_get net
             [Sub projectId, Lit ''/_apis/git/repositories/'', Sub repositoryId,
              Lit ''/commits?searchCriteria.itemVersion.version='', Sub branch,
              Lit ''&api-version=7.1''])
          (\<lambda>data.
        bind_io (lift (get_first data)) (\<lambda>c.
        bind_io (lift (get_prop c ''commitId'')) (\<lambda>latestCommitId.
          axios_put net
            [Sub projectId, Lit ''/_apis/git/repositories/'', Sub repositoryId,
             Lit ''/pushes?api-version=7.1'']
            (str_field [Lit ''refs/heads/'', Sub branch] (\<lambda>ref.
               Inr (push_body ref latestCommitId commitMessage
                      (JArr [edit_change filePath content]))))))))"

text \<open>\<open>files.map(file => ({... file.path ... file.content ...}))\<close>: only an array has \<open>map\<close>.\<close>

fun file_changes :: "jsval list \<Rightarrow> exn + jsval list" where
  "file_changes [] = Inr []"
| "file_changes (file # fs) =
     (case get_prop file ''path'' of
        Inl e \<Rightarrow> Inl e
      | Inr p \<Rightarrow>
          (case get_prop file ''content'' of
             Inl e \<Rightarrow> Inl e
           | Inr c \<Rightarrow>
               (case file_changes fs of
                  Inl e \<Rightarrow> Inl e
                | Inr cs \<Rightarrow> Inr (edit_change p c # cs))))"

definition map_files :: "jsval \<Rightarrow> exn + jsval" where
  "map_files files =
     (case files of
        JArr fs \<Rightarrow> (case file_changes fs of Inl e \<Rightarrow> Inl e | Inr cs \<Rightarrow> Inr (JArr cs))
      | _ \<Rightarrow> Inl TypeError)"

definition pushFiles ::
  "net \<Rightarrow> jsval \<Rightarrow> jsval \<Rightarrow> jsval \<Rightarrow> jsval \<Rightarrow> jsval \<Rightarrow> jsval io" where
  "pushFiles net projectId repositoryId branch files commitMessage =
     try_rewrap
       (bind_io (getLatestCommit net projectId repositoryId branch) (\<lambda>latestCommitId.
        bind_io (lift (map_files files)) (\<lambda>changes.
          axios_post net
            [Sub projectId, Lit ''/_apis/git/repositories/'', Sub repositoryId,
             Lit ''/pushes?api-version=7.1'']
            (str_field [Lit ''refs/heads/'', Sub branch] (\<lambda>ref.
               Inr (push_body ref latestCommitId commitMessage changes))))))"

subsection \<open>operations/repository\<close>

definition createRepository :: "net \<Rightarrow> jsval \<Rightarrow> jsval \<Rightarrow> jsval \<Rightarrow> jsval io" where
  "createRepository net projectId name description =
     try_rewrap
       (axios_post net [Lit ''_apis/git/repositories?api-version=7.1'']
          (Inr (JObj [(''name'', name), (''project'', JObj [(''id'', projectId)]),
                      (''defaultBranch'', JStr ''main''), (''description'', description)])))"

text \<open>
  The filter callback of \<open>searchRepositories\<close>:
  \<^verbatim>\<open>
  repo.name.toLowerCase().includes(query.toLowerCase()) ||
  (repo.description && repo.description.toLowerCase().includes(query.toLowerCase()))
  \<close>
  and \<open>Array.prototype.filter\<close> with it, which stops at the first callback that raises.
\<close>

definition repo_matches :: "jsval \<Rightarrow> jsval \<Rightarrow> exn + bool" where
  "repo_matches query repo =
     (case get_prop repo ''name'' of
        Inl e \<Rightarrow> Inl e
      | Inr n \<Rightarrow>
          (case to_lower_case n of
             Inl e \<Rightarrow> Inl e
           | Inr ln \<Rightarrow>
               (case to_lower_case query of
                  Inl e \<Rightarrow> Inl e
                | Inr lq \<Rightarrow>
                    if str_includes ln lq then Inr True
                    else
                      (case get_prop repo ''description'' of
                         Inl e \<Rightarrow> Inl e
                       | Inr d \<Rightarrow>
                           if \<not> truthy d then Inr False
                           else
                             (case to_lower_case d of
                                Inl e \<Rightarrow> Inl e
                              | Inr ld \<Rightarrow> Inr (str_includes ld lq))))))"

fun filter_repos :: "jsval \<Rightarrow> jsval list \<Rightarrow> exn + jsval list" where
  "filter_repos query [] = Inr []"
| "filter_repos query (repo # rs) =
     (case repo_matches query repo of
        Inl e \<Rightarrow> Inl e
      | Inr keep \<Rightarrow>
          (case filter_repos query rs of
             Inl e \<Rightarrow> Inl e
           | Inr ks \<Rightarrow> Inr (if keep then repo # ks else ks)))"

text \<open>
  \<open>xs.slice(start, end)\<close> on integers: a negative index counts from the end of the
  array, and both indices are clamped to the array.
\<close>

definition slice_index :: "int \<Rightarrow> int \<Rightarrow> int" where
  "slice_index n i = (if i < 0 then max (n + i) 0 else min i n)"

definition js_slice :: "'a list \<Rightarrow> int \<Rightarrow> int \<Rightarrow> 'a list" where
  "js_slice xs start end =
     (let n = int (length xs); k = slice_index n start; final = slice_index n end
      in take (nat (final - k)) (drop (nat k) xs))"

text \<open>\<open>Math.ceil(a / b)\<close> for an array length \<open>a\<close> and an integer \<open>b\<close>.\<close>

definition ceil_div :: "int \<Rightarrow> int \<Rightarrow> jsval" where
  "ceil_div a b =
     (if b = 0 then (if a = 0 then JNaN else JInfinity) else JNum (- ((- a) div b)))"

text \<open>
  \<open>page\<close> and \<open>perPage\<close> are numbers with the defaults 1 and 30; \<open>None\<close> is an
  omitted argument.
\<close>

definition searchRepositories ::
  "net \<Rightarrow> jsval \<Rightarrow> jsval \<Rightarrow> int option \<Rightarrow> int option \<Rightarrow> jsval io" where
  "searchRepositories net projectId query page_arg perPage_arg =
     (let page = (case page_arg of None \<Rightarrow> 1 | Some p \<Rightarrow> p);
          perPage = (case perPage_arg of None \<Rightarrow> 30 | Some n \<Rightarrow> n)
      in try_rewrap
           (bind_io
              (axios_get net [Sub projectId, Lit ''/_apis/git/repositories?api-version=7.1''])
              (\<lambda>data.
            bind_io (lift (get_prop data ''value'')) (\<lambda>v.
              (case v of
                 JArr repos \<Rightarrow>
                   bind_io (lift (filter_repos query repos)) (\<lambda>filteredRepos.
                     let startIndex = (page - 1) * perPage;
                         paginatedRepos = js_slice filteredRepos startIndex (startIndex + perPage)
                     in return
                          (JObj [(''total_count'', JNum (int (length filteredRepos))),
                                 (''items'', JArr paginatedRepos),
                                 (''page'', JNum page),
                                 (''perPage'', JNum perPage),
                                 (''totalPages'',
                                    ceil_div (int (length filteredRepos)) perPage)]))
               | _ \<Rightarrow> throw TypeError)))))"

text \<open>
  \<open>{...newRepo, source: sourceRepo}\<close>: the own properties of the spread value, with
  \<open>source\<close> set (in place when it is already there).
\<close>

fun own_props :: "jsval \<Rightarrow> (string \<times> jsval) list" where
  "own_props (JObj kvs) = kvs"
| "own_props (JArr xs) = zip (map digits [0..<length xs]) xs"
| "own_props (JStr s) = zip (map digits [0..<length s]) (map (\<lambda>c. JStr [c]) s)"
| "own_props v = []"

fun set_prop :: "string \<Rightarrow> jsval \<Rightarrow> (string \<times> jsval) list \<Rightarrow> (string \<times> jsval) list" where
  "set_prop k v [] = [(k, v)]"
| "set_prop k v (p # ps) = (if fst p = k then (k, v) # ps else p # set_prop k v ps)"

definition forkRepository :: "net \<Rightarrow> jsval \<Rightarrow> jsval \<Rightarrow> jsval \<Rightarrow> jsval \<Rightarrow> jsval io" where
  "forkRepository net projectId repositoryId name targetProjectId =
     try_rewrap
       (bind_io
          (axios_get net
             [Sub projectId, Lit ''/_apis/git/repositories/'', Sub repositoryId,
              Lit ''?api-version=7.1''])
          (\<lambda>sourceRepo.
        let targetProject = js_or targetProjectId projectId in
        bind_io (lift (get_prop sourceRepo ''name'')) (\<lambda>sourceName.
        bind_io (lift (get_prop sourceRepo ''description'')) (\<lambda>sourceDescription.
        bind_io
          (lift (template [Lit ''Fork of '', Sub sourceName, Lit '': '',
                           Sub (js_or sourceDescription (JStr []))]))
          (\<lambda>description.
        bind_io (createRepository net targetProject name (JStr description)) (\<lambda>newRepo.
        bind_io (lift (get_prop newRepo ''id'')) (\<lambda>newId.
        bind_io (lift (get_prop sourceRepo ''remoteUrl'')) (\<lambda>remoteUrl.
        bind_io
          (axios_post net
             [Sub targetProject, Lit ''/_apis/git/repositories/'', Sub newId,
              Lit ''/importRequests?api-version=7.1'']
             (Inr (JObj [(''parameters'',
                          JObj [(''gitSource'', JObj [(''url'', remoteUrl)])])])))
          (\<lambda>_. return (JObj (set_prop ''source'' sourceRepo (own_props newRepo))))))))))))"

subsection \<open>operations/search\<close>

definition searchCode ::
  "net \<Rightarrow> jsval \<Rightarrow> jsval \<Rightarrow> jsval \<Rightarrow> jsval \<Rightarrow> jsval \<Rightarrow> jsval io" where
  "searchCode net projectId repositoryId searchText filePath top_arg =
     try_rewrap
       (axios_get net
          [Sub projectId, Lit ''/_apis/git/repositories/'', Sub repositoryId,
           Lit ''/items?search='', Sub searchText, Lit ''&api-version=7.1''])"

text \<open>
  \<open>v > 0\<close>. For a number, \<open>undefined\<close>, \<open>null\<close> and a boolean the comparison is
  decided here. For a string, an array or an object it goes through the runtime's
  conversion to a floating-point number, which the model takes as a parameter \<open>cmp\<close>.
\<close>

fun gt_zero :: "(jsval \<Rightarrow> exn + bool) \<Rightarrow> jsval \<Rightarrow> exn + bool" where
  "gt_zero cmp (JNum n) = Inr (0 < n)"
| "gt_zero cmp JInfinity = Inr True"
| "gt_zero cmp JNaN = Inr False"
| "gt_zero cmp JUndefined = Inr False"
| "gt_zero cmp JNull = Inr False"
| "gt_zero cmp (JBool b) = Inr b"
| "gt_zero cmp v = cmp v"

text \<open>A parameter with the default value 100: the default stands in for \<open>undefined\<close>.\<close>

definition default_top :: "jsval \<Rightarrow> jsval" where
  "default_top top_arg = (if top_arg = JUndefined then JNum 100 else top_arg)"

definition quote :: string where
  "quote = [CHR 0x27]"

definition wiql_clause :: "string \<Rightarrow> jsval \<Rightarrow> piece list" where
  "wiql_clause field v =
     (if truthy v then [Lit ('' AND [System.'' @ field @ ''] = '' @ quote), Sub v, Lit quote]
      else [])"

definition wiql_query :: "jsval \<Rightarrow> jsval \<Rightarrow> jsval \<Rightarrow> jsval \<Rightarrow> jsval \<Rightarrow> piece list" where
  "wiql_query projectId query state type assignedTo =
     [Lit (''SELECT [System.Id], [System.Title], [System.State], [System.WorkItemType], ''
           @ ''[System.AssignedTo], [System.CreatedDate], [System.ChangedDate] ''
           @ ''FROM WorkItems WHERE [System.TeamProject] = '' @ quote),
      Sub projectId,
      Lit (quote @ '' AND CONTAINS(System.Title, '' @ quote),
      Sub query,
      Lit (quote @ '')'')]
     @ wiql_clause ''State'' state
     @ wiql_clause ''WorkItemType'' type
     @ wiql_clause ''AssignedTo'' assignedTo
     @ [Lit '' ORDER BY [System.ChangedDate] DESC'']"

fun item_ids :: "jsval list \<Rightarrow> exn + jsval list" where
  "item_ids [] = Inr []"
| "item_ids (item # items) =
     (case get_prop item ''id'' of
        Inl e \<Rightarrow> Inl e
      | Inr i \<Rightarrow> (case item_ids items of Inl e \<Rightarrow> Inl e | Inr is \<Rightarrow> Inr (i # is)))"

definition count_and_value :: "jsval \<Rightarrow> exn + jsval" where
  "count_and_value data =
     (case get_prop data ''count'' of
        Inl e \<Rightarrow> Inl e
      | Inr c \<Rightarrow>
          (case get_prop data ''value'' of
             Inl e \<Rightarrow> Inl e
           | Inr v \<Rightarrow> Inr (JObj [(''count'', c), (''value'', v)])))"

definition searchWorkItems ::
  "(jsval \<Rightarrow> exn + bool) \<Rightarrow> net \<Rightarrow> jsval \<Rightarrow> jsval \<Rightarrow> jsval \<Rightarrow> jsval \<Rightarrow> jsval \<Rightarrow> jsval
     \<Rightarrow> jsval io" where
  "searchWorkItems cmp net projectId query state type assignedTo top_arg =
     try_rewrap
       (bind_io (lift (template (wiql_query projectId query state type assignedTo)))
          (\<lambda>wiqlQuery.
        bind_io
          (axios_post net
             [Sub projectId, Lit ''/_apis/wit/wiql?api-version=7.1&$top='', Sub (default_top top_arg)]
             (Inr (JObj [(''query'', JStr wiqlQuery)])))
          (\<lambda>data.
        bind_io (lift (get_prop data ''workItems'')) (\<lambda>workItems.
        bind_io
          (if truthy workItems
           then bind_io (lift (get_prop workItems ''length'')) (\<lambda>l. lift (gt_zero cmp l))
           else return False)
          (\<lambda>some.
          if some then
            (case workItems of
               JArr items \<Rightarrow>
                 bind_io (lift (item_ids items)) (\<lambda>ids.
                 bind_io (lift (join_elems ids)) (\<lambda>workItemIds.
                 bind_io
                   (axios_get net
                      [Lit ''_apis/wit/workitems?ids='', Lit workItemIds, Lit ''&api-version=7.1''])
                   (\<lambda>details. lift (count_and_value details))))
             | _ \<Rightarrow> throw TypeError)
          else return (JObj [(''count'', JNum 0), (''value'', JArr [])]))))))"

definition searchUsers :: "net \<Rightarrow> jsval \<Rightarrow> jsval \<Rightarrow> jsval io" where
  "searchUsers net query top_arg =
     try_rewrap
       (bind_io (lift (encodeURIComponent query)) (\<lambda>enc.
        bind_io
          (axios_get net
             [Lit ''_apis/graph/users?searchString='', Lit enc,
              Lit ''&api-version=7.1-preview.1&$top='', Sub (default_top top_arg)])
          (\<lambda>data. lift (count_and_value data))))"

section \<open>The server\<close>

subsection \<open>Startup\<close>

text \<open>
  The module reads the two credentials from the process environment and throws before
  the server class is even defined when one is missing or empty
  (\<open>if (!ORG_URL || !API_TOKEN) throw new Error(...)\<close>); \<open>run\<close> then constructs the
  server, whose HTTP client is built from them.
\<close>

record server =
  server_name :: string
  baseURL :: string
  api_token :: string

definition env_truthy :: "string option \<Rightarrow> bool" where
  "env_truthy v = (case v of None \<Rightarrow> False | Some s \<Rightarrow> s \<noteq> [])"

definition module_init :: "(string \<rightharpoonup> string) \<Rightarrow> exn + server" where
  "module_init env =
     (let ORG_URL = env ''AZURE_DEVOPS_ORG_URL'';
          API_TOKEN = env ''AZURE_DEVOPS_API_TOKEN''
      in if \<not> env_truthy ORG_URL \<or> \<not> env_truthy API_TOKEN
         then Inl (Error (''AZURE_DEVOPS_ORG_URL and AZURE_DEVOPS_API_TOKEN ''
                          @ ''environment variables are required''))
         else Inr \<lparr>server_name = ''azure-devops-server'',
                   baseURL = (case ORG_URL of None \<Rightarrow> [] | Some u \<Rightarrow> u),
                   api_token = (case API_TOKEN of None \<Rightarrow> [] | Some t \<Rightarrow> t)\<rparr>)"

subsection \<open>The tool catalog\<close>

text \<open>
  The tools that the list-tools handler advertises, each with the \<open>required\<close> list of
  its input schema. For the tools whose schema is derived from a zod object the required
  properties are the fields that are not \<open>.optional()\<close>.
\<close>

definition catalog :: "(string \<times> string list) list" where
  "catalog =
     [(''get_projects'', []),
      (''get_repositories'', [''project_id'']),
      (''create_repository'', [''project_id'', ''name'']),
      (''create_pull_request'',
         [''project_id'', ''repository_id'', ''source_branch'', ''target_branch'', ''title'']),
      (''add_issue_comment'', [''project_id'', ''repository_id'', ''issue_id'', ''comment'']),
      (''get_branches'', [''project_id'', ''repository_id'']),
      (''get_commits'', [''project_id'', ''repository_id'', ''branch'']),
      (''get_file_content'', [''project_id'', ''repository_id'', ''file_path'', ''branch'']),
      (''update_file_content'',
         [''project_id'', ''repository_id'', ''file_path'', ''branch'', ''content'',
          ''commit_message'']),
      (''search_code'', [''project_id'', ''repository_id'', ''search_text'']),
      (''search_work_items'', [''project_id'', ''query'']),
      (''search_users'', [''query'']),
      (''fork_repository'', [''project_id'', ''repository_id'', ''name'']),
      (''create_branch'', [''project_id'', ''repository_id'', ''branch'']),
      (''update_branch'',
         [''project_id'', ''repository_id'', ''branch'', ''new_commit_id'', ''old_commit_id'']),
      (''push_files'',
         [''project_id'', ''repository_id'', ''branch'', ''files'', ''commit_message'']),
      (''create_or_update_file'',
         [''project_id'', ''repository_id'', ''path'', ''content'', ''commit_message'',
          ''branch''])]"

definition tool_names :: "string list" where
  "tool_names = map fst catalog"

definition required_args :: "string \<Rightarrow> string list" where
  "required_args n = (case map_of catalog n of None \<Rightarrow> [] | Some ks \<Rightarrow> ks)"

subsection \<open>The call-tool handler\<close>

text \<open>
  A call names a tool and may carry an arguments object (\<open>request.params.name\<close>,
  \<open>request.params.arguments\<close>). \<open>arg request k\<close> is \<open>request.params.arguments?.k\<close>.
\<close>

record call_request =
  params_name :: string
  params_arguments :: "(string \<rightharpoonup> jsval) option"

definition arg :: "call_request \<Rightarrow> string \<Rightarrow> jsval" where
  "arg request k =
     (case params_arguments request of
        None \<Rightarrow> JUndefined
      | Some m \<Rightarrow> (case m k of None \<Rightarrow> JUndefined | Some v \<Rightarrow> v))"

text \<open>
  A call of one of the exported operation handlers with its actual parameters, and the
  handler it runs. The comparison parameter \<open>cmp\<close> is the one of \<open>gt_zero\<close>.
\<close>

datatype op_call =
    GetCommits jsval jsval jsval
  | CreatePullRequest jsval jsval jsval jsval jsval jsval
  | GetIssue jsval jsval jsval
  | AddIssueComment jsval jsval jsval jsval
  | GetBranches jsval jsval
  | GetDefaultBranch jsval jsval
  | GetBranchRef jsval jsval jsval
  | GetLatestCommit jsval jsval jsval
  | CreateBranch jsval jsval jsval jsval
  | UpdateBranch jsval jsval jsval jsval jsval
  | GetFileContent jsval jsval jsval jsval
  | CreateOrUpdateFile jsval jsval jsval jsval jsval jsval
  | PushFiles jsval jsval jsval jsval jsval
  | CreateRepository jsval jsval jsval
  | SearchRepositories jsval jsval "int option" "int option"
  | ForkRepository jsval jsval jsval jsval
  | SearchCode jsval jsval jsval jsval jsval
  | SearchWorkItems jsval jsval jsval jsval jsval jsval
  | SearchUsers jsval jsval

fun run_op :: "(jsval \<Rightarrow> exn + bool) \<Rightarrow> net \<Rightarrow> op_call \<Rightarrow> jsval io" where
  "run_op cmp net (GetCommits p r b) = getCommits net p r b"
| "run_op cmp net (CreatePullRequest p r s t ti d) = createPullRequest net p r s t ti d"
| "run_op cmp net (GetIssue p r i) = getIssue net p r i"
| "run_op cmp net (AddIssueComment p r i c) = addIssueComment net p r i c"
| "run_op cmp net (GetBranches p r) = getBranches net p r"
| "run_op cmp net (GetDefaultBranch p r) = getDefaultBranch net p r"
| "run_op cmp net (GetBranchRef p r b) = getBranchRef net p r b"
| "run_op cmp net (GetLatestCommit p r b) = getLatestCommit net p r b"
| "run_op cmp net (CreateBranch p r b f) = createBranch net p r b f"
| "run_op cmp net (UpdateBranch p r b n old) = updateBranch net p r b n old"
| "run_op cmp net (GetFileContent p r f b) = getFileContent net p r f b"
| "run_op cmp net (CreateOrUpdateFile p r f c m b) = createOrUpdateFile net p r f c m b"
| "run_op cmp net (PushFiles p r b fs m) = pushFiles net p r b fs m"
| "run_op cmp net (CreateRepository p n d) = createRepository net p n d"
| "run_op cmp net (SearchRepositories p q pg pp) = searchRepositories net p q pg pp"
| "run_op cmp net (ForkRepository p r n t) = forkRepository net p r n t"
| "run_op cmp net (SearchCode p r s f t) = searchCode net p r s f t"
| "run_op cmp net (SearchWorkItems p q s ty a t) = searchWorkItems cmp net p q s ty a t"
| "run_op cmp net (SearchUsers q t) = searchUsers net q t"

text \<open>
  The handler is one chain of \<open>if (request.params.name === '...') ... else if ...\<close>.
  Every branch reads its arguments, throws \<open>McpError(InvalidParams)\<close> when a required
  one is falsy, and then does its work inside a \<open>try\<close>; the last \<open>else\<close> throws
  \<open>McpError(MethodNotFound)\<close>. \<open>select\<close> is the chain up to the \<open>try\<close>: what the
  branch throws, or the work it goes on to do. \<open>get_projects\<close> and \<open>get_repositories\<close>
  issue their request in the handler itself; every other tool calls an operation
  handler. \<open>update_file_content\<close> calls \<open>updateFileContent\<close>, which operations/files
  exports as another name of \<open>createOrUpdateFile\<close>, with the arguments in the order
  written at the call.
\<close>

datatype action =
    Throw exn
  | Get_projects
  | Get_repositories jsval
  | Operation op_call

definition select :: "call_request \<Rightarrow> action" where
  "select request =
    (let name = params_name request; a = arg request in
     if name = ''get_projects'' then Get_projects
     else if name = ''get_repositories'' then
       (let projectId = a ''project_id'' in
        if \<not> truthy projectId
        then Throw (McpError InvalidParams ''project_id is required'')
        else Get_repositories projectId)
     else if name = ''create_repository'' then
       (let projectId = a ''project_id''; name = a ''name''; description = a ''description'' in
        if \<not> truthy projectId \<or> \<not> truthy name
        then Throw (McpError InvalidParams ''project_id and name are required'')
        else Operation (CreateRepository projectId name (js_coalesce description (JStr []))))
     else if name = ''create_pull_request'' then
       (let projectId = a ''project_id''; repositoryId = a ''repository_id'';
            sourceBranch = a ''source_branch''; targetBranch = a ''target_branch'';
            title = a ''title''; description = a ''description'' in
        if \<not> truthy projectId \<or> \<not> truthy repositoryId \<or> \<not> truthy sourceBranch
           \<or> \<not> truthy targetBranch \<or> \<not> truthy title
        then Throw (McpError InvalidParams
               (''project_id, repository_id, source_branch, target_branch, ''
                @ ''and title are required''))
        else Operation (CreatePullRequest projectId repositoryId sourceBranch targetBranch title
                          (js_coalesce description (JStr []))))
     else if name = ''add_issue_comment'' then
       (let projectId = a ''project_id''; repositoryId = a ''repository_id'';
            issueId = a ''issue_id''; comment = a ''comment'' in
        if \<not> truthy projectId \<or> \<not> truthy repositoryId \<or> \<not> truthy issueId
           \<or> \<not> truthy comment
        then Throw (McpError InvalidParams
               ''project_id, repository_id, issue_id, and comment are required'')
        else Operation (AddIssueComment projectId repositoryId issueId comment))
     else if name = ''get_branches'' then
       (let projectId = a ''project_id''; repositoryId = a ''repository_id'' in
        if \<not> truthy projectId \<or> \<not> truthy repositoryId
        then Throw (McpError InvalidParams ''project_id and repository_id are required'')
        else Operation (GetBranches projectId repositoryId))
     else if name = ''get_commits'' then
       (let projectId = a ''project_id''; repositoryId = a ''repository_id'';
            branch = a ''branch'' in
        if \<not> truthy projectId \<or> \<not> truthy repositoryId \<or> \<not> truthy branch
        then Throw (McpError InvalidParams
               ''project_id, repository_id, and branch are required'')
        else Operation (GetCommits projectId repositoryId branch))
     else if name = ''get_file_content'' then
       (let projectId = a ''project_id''; repositoryId = a ''repository_id'';
            filePath = a ''file_path''; branch = a ''branch'' in
        if \<not> truthy projectId \<or> \<not> truthy repositoryId \<or> \<not> truthy filePath
           \<or> \<not> truthy branch
        then Throw (McpError InvalidParams
               ''project_id, repository_id, file_path, and branch are required'')
        else Operation (GetFileContent projectId repositoryId filePath branch))
     else if name = ''update_file_content'' then
       (let projectId = a ''project_id''; repositoryId = a ''repository_id'';
            filePath = a ''file_path''; branch = a ''branch''; content = a ''content'';
            commitMessage = a ''commit_message'' in
        if \<not> truthy projectId \<or> \<not> truthy repositoryId \<or> \<not> truthy filePath
           \<or> \<not> truthy branch \<or> \<not> truthy content \<or> \<not> truthy commitMessage
        then Throw (McpError InvalidParams
               (''project_id, repository_id, file_path, branch, content, ''
                @ ''and commit_message are required''))
        else Operation (CreateOrUpdateFile projectId repositoryId filePath branch content
                          commitMessage))
     else if name = ''search_code'' then
       (let projectId = a ''project_id''; repositoryId = a ''repository_id'';
            searchText = a ''search_text''; filePath = a ''file_path''; top_arg = a ''top'' in
        if \<not> truthy projectId \<or> \<not> truthy repositoryId \<or> \<not> truthy searchText
        then Throw (McpError InvalidParams
               ''project_id, repository_id, and search_text are required'')
        else Operation (SearchCode projectId repositoryId searchText filePath top_arg))
     else if name = ''search_work_items'' then
       (let projectId = a ''project_id''; query = a ''query''; state = a ''state'';
            type = a ''type''; assignedTo = a ''assigned_to''; top_arg = a ''top'' in
        if \<not> truthy projectId \<or> \<not> truthy query
        then Throw (McpError InvalidParams ''project_id and query are required'')
        else Operation (SearchWorkItems projectId query state type assignedTo top_arg))
     else if name = ''search_users'' then
       (let query = a ''query''; top_arg = a ''top'' in
        if \<not> truthy query
        then Throw (McpError InvalidParams ''query is required'')
        else Operation (SearchUsers query top_arg))
     else if name = ''fork_repository'' then
       (let projectId = a ''project_id''; repositoryId = a ''repository_id'';
            name = a ''name''; targetProjectId = a ''target_project_id'' in
        if \<not> truthy projectId \<or> \<not> truthy repositoryId \<or> \<not> truthy name
        then Throw (McpError InvalidParams
               ''project_id, repository_id, and name are required'')
        else Operation (ForkRepository projectId repositoryId name targetProjectId))
     else if name = ''create_branch'' then
       (let projectId = a ''project_id''; repositoryId = a ''repository_id'';
            branch = a ''branch''; fromBranch = a ''from_branch'' in
        if \<not> truthy projectId \<or> \<not> truthy repositoryId \<or> \<not> truthy branch
        then Throw (McpError InvalidParams
               ''project_id, repository_id, and branch are required'')
        else Operation (CreateBranch projectId repositoryId branch fromBranch))
     else if name = ''update_branch'' then
       (let projectId = a ''project_id''; repositoryId = a ''repository_id'';
            branch = a ''branch''; newCommitId = a ''new_commit_id'';
            oldCommitId = a ''old_commit_id'' in
        if \<not> truthy projectId \<or> \<not> truthy repositoryId \<or> \<not> truthy branch
           \<or> \<not> truthy newCommitId \<or> \<not> truthy oldCommitId
        then Throw (McpError InvalidParams
               (''project_id, repository_id, branch, new_commit_id, ''
                @ ''and old_commit_id are required''))
        else Operation (UpdateBranch projectId repositoryId branch newCommitId oldCommitId))
     else if name = ''push_files'' then
       (let projectId = a ''project_id''; repositoryId = a ''repository_id'';
            branch = a ''branch''; files = a ''files'';
            commitMessage = a ''commit_message'' in
        if \<not> truthy projectId \<or> \<not> truthy repositoryId \<or> \<not> truthy branch
           \<or> \<not> truthy files \<or> \<not> truthy commitMessage
        then Throw (McpError InvalidParams
               ''project_id, repository_id, branch, files, and commit_message are required'')
        else Operation (PushFiles projectId repositoryId branch files commitMessage))
     else if name = ''create_or_update_file'' then
       (let projectId = a ''project_id''; repositoryId = a ''repository_id'';
            path = a ''path''; content = a ''content'';
            commitMessage = a ''commit_message''; branch = a ''branch'' in
        if \<not> truthy projectId \<or> \<not> truthy repositoryId \<or> \<not> truthy path
           \<or> \<not> truthy content \<or> \<not> truthy commitMessage \<or> \<not> truthy branch
        then Throw (McpError InvalidParams
               (''project_id, repository_id, path, content, commit_message, ''
                @ ''and branch are required''))
        else Operation (CreateOrUpdateFile projectId repositoryId path content commitMessage
                          branch))
     else Throw (McpError MethodNotFound (''Unknown tool: '' @ name)))"

text \<open>
  What the handler returns: one text content, which is either
  \<open>JSON.stringify(response, null, 2)\<close> of a value or a message, and the \<open>isError\<close>
  flag (absent on success).
\<close>

datatype tool_text = Stringified jsval | Message string

record tool_result =
  content :: tool_text
  isError :: bool

text \<open>
  The \<open>try\<close> of a branch that calls an operation handler: an \<open>AzureDevOpsError\<close> is
  returned as an error result, anything else is thrown again.
\<close>

definition respond :: "jsval io \<Rightarrow> tool_result io" where
  "respond h log =
     (case h log of
        (Inr response, log') \<Rightarrow>
          (Inr \<lparr>content = Stringified response, isError = False\<rparr>, log')
      | (Inl (AzureDevOpsError m), log') \<Rightarrow>
          (Inr \<lparr>content = Message (api_error_prefix @ m), isError = True\<rparr>, log')
      | (Inl e, log') \<Rightarrow> (Inl e, log'))"

text \<open>
  The \<open>try\<close> of \<open>get_projects\<close> and \<open>get_repositories\<close>: an error of the HTTP library
  is returned as an error result with \<open>error.message\<close>, anything else is thrown again.
\<close>

definition respond_inline :: "jsval io \<Rightarrow> tool_result io" where
  "respond_inline h log =
     (case h log of
        (Inr v, log') \<Rightarrow> (Inr \<lparr>content = Stringified v, isError = False\<rparr>, log')
      | (Inl (AxiosError d m), log') \<Rightarrow>
          (Inr \<lparr>content = Message (api_error_prefix @ m), isError = True\<rparr>, log')
      | (Inl e, log') \<Rightarrow> (Inl e, log'))"

definition call_tool :: "(jsval \<Rightarrow> exn + bool) \<Rightarrow> net \<Rightarrow> call_request \<Rightarrow> tool_result io" where
  "call_tool cmp net request =
     (case select request of
        Throw e \<Rightarrow> throw e
      | Get_projects \<Rightarrow>
          respond_inline
            (bind_io (axios_get net [Lit ''_apis/projects?api-version=7.1''])
               (\<lambda>data. lift (get_prop data ''value'')))
      | Get_repositories projectId \<Rightarrow>
          respond_inline
            (bind_io
               (axios_get net [Sub projectId, Lit ''/_apis/git/repositories?api-version=7.1''])
               (\<lambda>data. lift (get_prop data ''value'')))
      | Operation c \<Rightarrow> respond (run_op cmp net c))"

section \<open>Notions used in the statements\<close>

text \<open>An invocation omits an argument when its arguments object has no such key.\<close>

definition omits :: "call_request \<Rightarrow> string \<Rightarrow> bool" where
  "omits request k = (case params_arguments request of None \<Rightarrow> True | Some m \<Rightarrow> m k = None)"

text \<open>
  \<open>first_failure E m\<close>: from any log, \<open>m\<close> either issues no request at all, or issues
  exactly one, which fails, and \<open>m\<close> raises an error of \<open>E\<close>. This is how a computation
  behaves when the platform rejects every request.
\<close>

definition first_failure :: "exn set \<Rightarrow> 'a io \<Rightarrow> bool" where
  "first_failure E m =
     (\<forall>log. snd (m log) = log \<or> (\<exists>q e. e \<in> E \<and> m log = (Inl e, log @ [q])))"

text \<open>Concrete inputs for the examples: a comparison parameter and a platform.\<close>

definition example_cmp :: "jsval \<Rightarrow> exn + bool" where
  "example_cmp v = Inr False"

definition null_net :: net where
  "null_net log q = Inr JNull"

text \<open>
  A platform that answers every request with status 404 and the JSON body
  \<open>{"message": "not found"}\<close>.
\<close>

definition outage_net :: net where
  "outage_net log q =
     Inl (AxiosError (JObj [(''message'', JStr ''not found'')])
            ''Request failed with status code 404'')"

text \<open>Two invocations with all their required arguments, and none that is optional.\<close>

definition get_branches_call :: call_request where
  "get_branches_call =
     \<lparr>params_name = ''get_branches'',
      params_arguments = Some [''project_id'' \<mapsto> JStr ''P'', ''repository_id'' \<mapsto> JStr ''R'']\<rparr>"

definition create_branch_call :: call_request where
  "create_branch_call =
     \<lparr>params_name = ''create_branch'',
      params_arguments =
        Some [''project_id'' \<mapsto> JStr ''P'', ''repository_id'' \<mapsto> JStr ''R'',
              ''branch'' \<mapsto> JStr ''feature-x'']\<rparr>"






text \<open>A platform that serves one file, and an invocation that reads it.\<close>

definition file_net :: net where
  "file_net log q = Inr (JStr ''hello'')"

definition get_file_content_call :: call_request where
  "get_file_content_call =
     \<lparr>params_name = ''get_file_content'',
      params_arguments =
        Some [''project_id'' \<mapsto> JStr ''P'', ''repository_id'' \<mapsto> JStr ''R'',
              ''file_path'' \<mapsto> JStr ''/README.md'', ''branch'' \<mapsto> JStr ''main'']\<rparr>"

definition file_request :: request where
  "file_request =
     \<lparr>meth = GET,
      url = ''P/_apis/git/repositories/R/items?path=/README.md&versionDescriptor.version=main&api-version=7.1'',
      body = JUndefined\<rparr>"







text \<open>
  A project with fifty repositories, \<open>web-0, API-0, web-1, API-1, ...\<close>: the
  twenty-five \<open>API-i\<close> match the query \<open>api\<close>, the others do not.
\<close>

definition api_repo :: "nat \<Rightarrow> jsval" where
  "api_repo i = JObj [(''name'', JStr (''API-'' @ digits i))]"





section \<open>Facts about the embedding\<close>


lemma to_string_error:
  "(to_string v = Inl e \<longrightarrow> e = TypeError)" "(join_elems xs = Inl e \<longrightarrow> e = TypeError)"
  by (induction v and xs rule: to_string_join_elems.induct)
     (auto split: sum.splits if_splits)

lemma rewrap_not_axios: "rewrap e \<noteq> AxiosError d m"
  using to_string_error(1)
  by (auto simp: rewrap_def split: exn.splits sum.splits)

lemma rewrap_idem: "rewrap (rewrap e) = rewrap e"
  using to_string_error(1)
  by (auto simp: rewrap_def split: exn.splits sum.splits)

lemma try_rewrap_not_axios: "fst (try_rewrap m log) \<noteq> Inl (AxiosError d s)"
  by (cases "m log") (auto simp: try_rewrap_def rewrap_not_axios split: sum.splits)

lemma try_rewrap_idem: "try_rewrap (try_rewrap m) = try_rewrap m"
  by (rule ext) (auto simp: try_rewrap_def rewrap_idem split: prod.splits sum.splits)

subsection \<open>Every handler is one try block with the translator as its catch\<close>

lemmas handler_defs =
  getCommits_def createPullRequest_def getIssue_def addIssueComment_def
  getBranches_def getDefaultBranch_def getBranchRef_def getLatestCommit_def
  createBranch_def updateBranch_def getFileContent_def createOrUpdateFile_def
  pushFiles_def createRepository_def searchRepositories_def forkRepository_def
  searchCode_def searchWorkItems_def searchUsers_def

lemma run_op_not_axios: "fst (run_op cmp net c log) \<noteq> Inl (AxiosError d m)"
  by (cases c) (simp_all add: handler_defs Let_def try_rewrap_not_axios del: fst_conv)

lemma run_op_try: "try_rewrap (run_op cmp net c) = run_op cmp net c"
  by (cases c) (simp_all add: handler_defs Let_def try_rewrap_idem)

subsection \<open>A platform that rejects every request\<close>

lemma ff_return: "first_failure E (return x)"
  by (simp add: first_failure_def return_def)

lemma ff_throw: "first_failure E (throw e)"
  by (simp add: first_failure_def throw_def)

lemma ff_lift: "first_failure E (lift r)"
  by (simp add: first_failure_def lift_def)

lemma ff_http: "\<forall>l q. net l q = Inl e \<Longrightarrow> e \<in> E \<Longrightarrow> first_failure E (http net q)"
  by (auto simp add: first_failure_def http_def)

lemma ff_bind:
  assumes "first_failure E m" and "\<And>x. first_failure E (f x)"
  shows "first_failure E (bind_io m f)"
  unfolding first_failure_def
proof
  fix log
  show "snd (bind_io m f log) = log \<or> (\<exists>q e. e \<in> E \<and> bind_io m f log = (Inl e, log @ [q]))"
  proof (cases "m log")
    case (Pair r l)
    from assms(1) have m: "l = log \<or> (\<exists>q e. e \<in> E \<and> (r, l) = (Inl e, log @ [q]))"
      unfolding first_failure_def using Pair by (metis snd_conv)
    show ?thesis
    proof (cases r)
      case (Inl e)
      with Pair m show ?thesis by (auto simp: bind_io_def)
    next
      case (Inr x)
      with m have "l = log" by auto
      with Pair Inr assms(2)[of x] show ?thesis
        by (auto simp: bind_io_def first_failure_def)
    qed
  qed
qed

lemma ff_try:
  assumes "first_failure E m"
  shows "first_failure (rewrap ` E) (try_rewrap m)"
  unfolding first_failure_def
proof
  fix log
  from assms have "snd (m log) = log \<or> (\<exists>q e. e \<in> E \<and> m log = (Inl e, log @ [q]))"
    by (simp add: first_failure_def)
  then show "snd (try_rewrap m log) = log \<or>
        (\<exists>q e. e \<in> rewrap ` E \<and> try_rewrap m log = (Inl e, log @ [q]))"
    by (cases "m log") (auto simp: try_rewrap_def split: sum.splits)
qed

lemma ff_mono: "first_failure E m \<Longrightarrow> E \<subseteq> F \<Longrightarrow> first_failure F m"
  unfolding first_failure_def by blast

lemma ff_handler:
  assumes "first_failure {e, rewrap e} m"
  shows "first_failure {e, rewrap e} (try_rewrap m)"
  using ff_try[OF assms] by (rule ff_mono) (simp add: rewrap_idem)

lemma ff_get: "\<forall>l q. net l q = Inl e \<Longrightarrow> e \<in> E \<Longrightarrow> first_failure E (axios_get net u)"
  unfolding axios_get_def by (intro ff_bind ff_lift ff_http)

lemma ff_post: "\<forall>l q. net l q = Inl e \<Longrightarrow> e \<in> E \<Longrightarrow> first_failure E (axios_post net u b)"
  unfolding axios_post_def by (intro ff_bind ff_lift ff_http)

lemma ff_put: "\<forall>l q. net l q = Inl e \<Longrightarrow> e \<in> E \<Longrightarrow> first_failure E (axios_put net u b)"
  unfolding axios_put_def by (intro ff_bind ff_lift ff_http)

lemmas ff_intros = ff_handler ff_bind ff_lift ff_return ff_throw ff_get ff_post ff_put

lemma ff_getLatestCommit:
  "\<forall>l q. net l q = Inl e \<Longrightarrow> first_failure {e, rewrap e} (getLatestCommit net p r b)"
  by (auto simp: getLatestCommit_def intro!: ff_intros)

lemma ff_getDefaultBranch:
  "\<forall>l q. net l q = Inl e \<Longrightarrow> first_failure {e, rewrap e} (getDefaultBranch net p r)"
  by (auto simp: getDefaultBranch_def intro!: ff_intros)

lemma ff_createRepository:
  "\<forall>l q. net l q = Inl e \<Longrightarrow> first_failure {e, rewrap e} (createRepository net p r b)"
  by (auto simp: createRepository_def intro!: ff_intros)

lemmas ff_all = ff_intros ff_getLatestCommit ff_getDefaultBranch ff_createRepository

lemma ff_run_op:
  assumes "\<forall>l q. net l q = Inl e"
  shows "first_failure {e, rewrap e} (run_op cmp net c)"
proof (cases c)
  case (GetCommits p r b)
  with assms show ?thesis by (auto simp: getCommits_def intro!: ff_all)
next
  case (CreatePullRequest p r s t ti d)
  with assms show ?thesis by (auto simp: createPullRequest_def intro!: ff_all)
next
  case (GetIssue p r i)
  with assms show ?thesis by (auto simp: getIssue_def intro!: ff_all)
next
  case (AddIssueComment p r i c)
  with assms show ?thesis by (auto simp: addIssueComment_def intro!: ff_all)
next
  case (GetBranches p r)
  with assms show ?thesis by (auto simp: getBranches_def intro!: ff_all)
next
  case (GetDefaultBranch p r)
  with assms show ?thesis by (auto intro!: ff_all)
next
  case (GetBranchRef p r b)
  with assms show ?thesis by (auto simp: getBranchRef_def intro!: ff_all)
next
  case (GetLatestCommit p r b)
  with assms show ?thesis by (auto intro!: ff_all)
next
  case (CreateBranch p r b f)
  with assms show ?thesis by (auto simp: createBranch_def intro!: ff_all)
next
  case (UpdateBranch p r b n old)
  with assms show ?thesis by (auto simp: updateBranch_def intro!: ff_all)
next
  case (GetFileContent p r f b)
  with assms show ?thesis by (auto simp: getFileContent_def intro!: ff_all)
next
  case (CreateOrUpdateFile p r f c m b)
  with assms show ?thesis by (auto simp: createOrUpdateFile_def intro!: ff_all)
next
  case (PushFiles p r b fs m)
  with assms show ?thesis by (auto simp: pushFiles_def intro!: ff_all)
next
  case (CreateRepository p n d)
  with assms show ?thesis by (auto intro!: ff_all)
next
  case (SearchRepositories p q pg pp)
  with assms show ?thesis
    by (auto simp: searchRepositories_def Let_def intro!: ff_all split: jsval.splits)
next
  case (ForkRepository p r n t)
  with assms show ?thesis by (auto simp: forkRepository_def Let_def intro!: ff_all)
next
  case (SearchCode p r s f t)
  with assms show ?thesis by (auto simp: searchCode_def intro!: ff_all)
next
  case (SearchWorkItems p q s ty a t)
  with assms show ?thesis
    by (auto simp: searchWorkItems_def intro!: ff_all split: jsval.splits)
next
  case (SearchUsers q t)
  with assms show ?thesis by (auto simp: searchUsers_def intro!: ff_all)
qed

lemma run_op_first_failure:
  assumes "\<forall>l q. net l q = Inl e"
  shows "first_failure {rewrap e} (run_op cmp net c)"
proof -
  have "first_failure (rewrap ` {e, rewrap e}) (try_rewrap (run_op cmp net c))"
    by (rule ff_try) (rule ff_run_op[OF assms])
  then show ?thesis by (simp add: run_op_try rewrap_idem)
qed

lemma run_op_outage:
  assumes "\<forall>l q. net l q = Inl e" and "snd (run_op cmp net c log) \<noteq> log"
  shows "\<exists>q. run_op cmp net c log = (Inl (rewrap e), log @ [q])"
  using run_op_first_failure[OF assms(1), of cmp c] assms(2)
  by (auto simp: first_failure_def)

subsection \<open>The chain of the call-tool handler\<close>

lemma select_unknown:
  "params_name request \<notin> set tool_names \<Longrightarrow>
   select request = Throw (McpError MethodNotFound (''Unknown tool: '' @ params_name request))"
  by (simp add: tool_names_def catalog_def select_def Let_def)

lemma select_known:
  assumes "params_name request \<in> set tool_names"
  shows "select request \<noteq> Throw (McpError MethodNotFound msg)"
  using assms unfolding tool_names_def catalog_def
  by (simp, elim disjE) (simp_all add: select_def Let_def)

lemma select_missing:
  assumes "(n, ks) \<in> set catalog" "k \<in> set ks" "params_name request = n"
    "\<not> truthy (arg request k)"
  shows "\<exists>msg. select request = Throw (McpError InvalidParams msg) \<and>
           select \<lparr>params_name = n, params_arguments = None\<rparr>
             = Throw (McpError InvalidParams msg) \<and>
           (\<forall>k' \<in> set ks. sublist k' msg)"
  using assms unfolding catalog_def
  by (simp, elim disjE conjE)
     (auto simp add: select_def Let_def arg_def sublist_code prefix_code)

lemma select_throw:
  assumes "select request = Throw e"
  shows "(params_name request \<notin> set tool_names \<and>
          e = McpError MethodNotFound (''Unknown tool: '' @ params_name request))
       \<or> (params_name request \<in> set tool_names \<and> (\<exists>msg. e = McpError InvalidParams msg) \<and>
          (\<exists>k \<in> set (required_args (params_name request)). \<not> truthy (arg request k)))"
proof (cases "params_name request \<in> set tool_names")
  case False
  with assms select_unknown[OF False] show ?thesis by simp
next
  case True
  then show ?thesis using assms unfolding tool_names_def catalog_def
    apply (simp, elim disjE)
    apply (simp_all add: select_def Let_def required_args_def catalog_def split: if_splits)
    apply blast+
    done
qed

lemma call_tool_throw: "select request = Throw e \<Longrightarrow> call_tool cmp net request log = (Inl e, log)"
  by (simp add: call_tool_def throw_def)

lemma omits_arg: "omits request k \<Longrightarrow> arg request k = JUndefined"
  by (auto simp: omits_def arg_def split: option.splits)

subsection \<open>Outcomes of the handlers and of a call\<close>

lemma respond_fst:
  "fst (respond h log) =
     (case fst (h log) of
        Inr v \<Rightarrow> Inr \<lparr>content = Stringified v, isError = False\<rparr>
      | Inl (AzureDevOpsError s) \<Rightarrow> Inr \<lparr>content = Message (api_error_prefix @ s), isError = True\<rparr>
      | Inl e \<Rightarrow> Inl e)"
  by (cases "h log") (auto simp: respond_def split: sum.splits exn.splits)

lemma respond_snd: "snd (respond h log) = snd (h log)"
  by (cases "h log") (auto simp: respond_def split: sum.splits exn.splits)

lemma respond_inline_fst:
  "fst (respond_inline h log) =
     (case fst (h log) of
        Inr v \<Rightarrow> Inr \<lparr>content = Stringified v, isError = False\<rparr>
      | Inl (AxiosError d m) \<Rightarrow> Inr \<lparr>content = Message (api_error_prefix @ m), isError = True\<rparr>
      | Inl e \<Rightarrow> Inl e)"
  by (cases "h log") (auto simp: respond_inline_def split: sum.splits exn.splits)

lemma respond_inline_snd: "snd (respond_inline h log) = snd (h log)"
  by (cases "h log") (auto simp: respond_inline_def split: sum.splits exn.splits)

lemma call_tool_operation:
  "select request = Operation c \<Longrightarrow> call_tool cmp net request = respond (run_op cmp net c)"
  by (rule ext) (simp add: call_tool_def)

lemma call_tool_not_axios: "fst (call_tool cmp net request log) \<noteq> Inl (AxiosError d m)"
proof (cases "select request")
  case (Throw e)
  with select_throw[OF Throw] show ?thesis by (auto simp: call_tool_throw)
next
  case Get_projects
  then show ?thesis
    by (simp add: call_tool_def respond_inline_fst split: sum.splits exn.splits)
next
  case (Get_repositories p)
  then show ?thesis
    by (simp add: call_tool_def respond_inline_fst split: sum.splits exn.splits)
next
  case (Operation c)
  then show ?thesis using run_op_not_axios[of cmp net c log]
    by (simp add: call_tool_operation respond_fst split: sum.splits exn.splits)
qed

lemma ff_inline:
  "\<forall>l q. net l q = Inl e \<Longrightarrow>
   first_failure {e} (bind_io (axios_get net u) (\<lambda>data. lift (get_prop data k)))"
  by (intro ff_bind ff_lift ff_get) auto

lemma rewrap_axios:
  "to_string (js_coalesce (opt_prop d ''message'') (JStr m)) = Inr detail \<Longrightarrow>
   rewrap (AxiosError d m) = AzureDevOpsError (api_error_prefix @ detail)"
  by (simp add: rewrap_def)

lemma call_tool_outage:
  assumes net: "\<forall>l q. net l q = Inl (AxiosError d m)"
    and det: "to_string (js_coalesce (opt_prop d ''message'') (JStr m)) = Inr detail"
    and req: "snd (call_tool cmp net request log) \<noteq> log"
  shows "\<exists>q. call_tool cmp net request log
           = (Inr \<lparr>content = Message
                     (case select request of
                        Operation c \<Rightarrow> api_error_prefix @ api_error_prefix @ detail
                      | _ \<Rightarrow> api_error_prefix @ m),
                   isError = True\<rparr>, log @ [q])"
proof (cases "select request")
  case (Throw e)
  with req show ?thesis by (simp add: call_tool_throw)
next
  case Get_projects
  let ?h = "bind_io (axios_get net [Lit ''_apis/projects?api-version=7.1''])
              (\<lambda>data. lift (get_prop data ''value''))"
  from Get_projects req have "snd (?h log) \<noteq> log"
    by (simp add: call_tool_def respond_inline_snd)
  with ff_inline[OF net] obtain q where "?h log = (Inl (AxiosError d m), log @ [q])"
    unfolding first_failure_def by blast
  with Get_projects show ?thesis by (simp add: call_tool_def respond_inline_def)
next
  case (Get_repositories p)
  let ?h = "bind_io (axios_get net [Sub p, Lit ''/_apis/git/repositories?api-version=7.1''])
              (\<lambda>data. lift (get_prop data ''value''))"
  from Get_repositories req have "snd (?h log) \<noteq> log"
    by (simp add: call_tool_def respond_inline_snd)
  with ff_inline[OF net] obtain q where "?h log = (Inl (AxiosError d m), log @ [q])"
    unfolding first_failure_def by blast
  with Get_repositories show ?thesis by (simp add: call_tool_def respond_inline_def)
next
  case (Operation c)
  with req have "snd (run_op cmp net c log) \<noteq> log"
    by (simp add: call_tool_operation respond_snd)
  from run_op_outage[OF net this] obtain q where
    "run_op cmp net c log = (Inl (rewrap (AxiosError d m)), log @ [q])" by blast
  with Operation show ?thesis
    by (simp add: call_tool_operation respond_def rewrap_axios[OF det])
qed

lemma select_operation:
  assumes "params_name request \<in> set tool_names"
    and "params_name request \<noteq> ''get_projects''" and "params_name request \<noteq> ''get_repositories''"
    and "\<forall>k \<in> set (required_args (params_name request)). truthy (arg request k)"
  shows "\<exists>c. select request = Operation c"
  using assms unfolding tool_names_def catalog_def
  apply (simp, elim disjE)
  apply (simp_all add: select_def Let_def required_args_def catalog_def)
  done

lemmas io_defs =
  return_def throw_def lift_def bind_io_def http_def axios_get_def axios_post_def
  axios_put_def try_rewrap_def str_field_def

lemma catalog_required: "n \<in> set tool_names \<Longrightarrow> (n, required_args n) \<in> set catalog"
  unfolding tool_names_def catalog_def required_args_def
  by (simp, elim disjE) simp_all

lemma select_not_throw:
  assumes "\<And>e. select request \<noteq> Throw e"
  shows "params_name request \<in> set tool_names \<and>
         (\<forall>k \<in> set (required_args (params_name request)). truthy (arg request k))"
proof -
  have n: "params_name request \<in> set tool_names"
    using select_unknown[of request] assms by blast
  moreover have "truthy (arg request k)" if "k \<in> set (required_args (params_name request))" for k
    using select_missing[OF catalog_required[OF n] that refl] assms by blast
  ultimately show ?thesis by blast
qed

lemma rewrap_other: "(\<And>d m. e \<noteq> AxiosError d m) \<Longrightarrow> rewrap e = e"
  by (cases e) (auto simp: rewrap_def)

lemma not_found_sublist:
  "sublist ''not found'' (api_error_prefix @ api_error_prefix @ ''not found'')"
  by (simp add: sublist_append)

lemma select_get_branches:
  "select get_branches_call = Operation (GetBranches (JStr ''P'') (JStr ''R''))"
  by (simp add: get_branches_call_def select_def Let_def arg_def)

lemma get_branches_outage:
  "call_tool example_cmp outage_net get_branches_call []
     = (Inr \<lparr>content = Message ''Azure DevOps API error: Azure DevOps API error: not found'',
             isError = True\<rparr>,
        [\<lparr>meth = GET, url = ''P/_apis/git/repositories/R/refs?filter=heads&api-version=7.1'',
          body = JUndefined\<rparr>])"
  by (simp add: call_tool_def select_get_branches respond_def getBranches_def io_defs
        outage_net_def rewrap_def opt_prop_def js_coalesce_def api_error_prefix_def)

lemma select_create_branch:
  "select create_branch_call
     = Operation (CreateBranch (JStr ''P'') (JStr ''R'') (JStr ''feature-x'') JUndefined)"
  by (simp add: create_branch_call_def select_def Let_def arg_def)







lemma getFileContent_eval:
  "getFileContent net p r f b log =
     (case template [Sub p, Lit ''/_apis/git/repositories/'', Sub r, Lit ''/items?path='', Sub f,
                     Lit ''&versionDescriptor.version='', Sub b, Lit ''&api-version=7.1''] of
        Inl e \<Rightarrow> (Inl e, log)
      | Inr u \<Rightarrow>
          (case net log \<lparr>meth = GET, url = u, body = JUndefined\<rparr> of
             Inl e \<Rightarrow> (Inl (rewrap e), log @ [\<lparr>meth = GET, url = u, body = JUndefined\<rparr>])
           | Inr d \<Rightarrow> (Inr d, log @ [\<lparr>meth = GET, url = u, body = JUndefined\<rparr>])))"
proof -
  have "template ps = Inl e \<Longrightarrow> rewrap e = e" for ps e
    by (induction ps rule: template.induct)
       (auto simp: rewrap_def split: sum.splits dest: to_string_error(1)[THEN mp])
  then show ?thesis
    unfolding getFileContent_def
    by (auto simp add: io_defs split: sum.splits simp del: template.simps)
qed

lemma getFileContent_same:
  assumes "snd (getFileContent net p r f b log) = log @ qs"
    and "\<forall>q \<in> set qs. net' log' q = net log q"
  shows "getFileContent net' p r f b log' = (fst (getFileContent net p r f b log), log' @ qs)"
  using assms by (auto simp add: getFileContent_eval split: sum.splits)

lemma get_file_content_first:
  "call_tool example_cmp file_net get_file_content_call []
     = (Inr \<lparr>content = Stringified (JStr ''hello''), isError = False\<rparr>, [file_request])"
  by (simp add: call_tool_def select_def Let_def arg_def get_file_content_call_def respond_def
        getFileContent_def io_defs file_net_def file_request_def)









text \<open>
  \<open>Array.prototype.slice\<close> counts a negative index from the end: with \<open>page = -1\<close>
  and \<open>perPage = 10\<close> the slice of 25 elements from -20 to -10 is the sixth to the
  fifteenth element.
\<close>

lemma example_negative_page:
  "js_slice (map api_repo [0..<25]) ((- 1 - 1) * 10) ((- 1 - 1) * 10 + 10) = map api_repo [5..<15]"
  by code_simp

section \<open>The claims\<close>





text \<open>
  C3, as the code has it. The claim says that an unmatched tool name is the only
  failure that is thrown and that a missing required parameter gives a returned error
  result; the handler throws \<open>McpError(InvalidParams)\<close> for it. What holds: a call
  that ends in a thrown error is (a) one with an unmatched name, which throws
  \<open>MethodNotFound\<close> before any request, or (b) one of a catalog tool with a falsy
  required argument, which throws \<open>InvalidParams\<close> before any request, or (c) one of
  a catalog tool whose required arguments are all truthy and whose work raised an error
  that its \<open>catch\<close> does not recover: never an error of the HTTP library, and for a
  tool that runs an operation handler never an \<open>AzureDevOpsError\<close>. And when the
  platform rejects every request with an HTTP error whose message converts to a string,
  a call that reaches the network returns a result marked \<open>isError\<close>.
\<close>

theorem thrown_failures_classified:
  "(\<forall>e. fst (call_tool cmp net request log) = Inl e \<longrightarrow>
      (params_name request \<notin> set tool_names \<and>
       e = McpError MethodNotFound (''Unknown tool: '' @ params_name request) \<and>
       snd (call_tool cmp net request log) = log)
    \<or> (params_name request \<in> set tool_names \<and> (\<exists>msg. e = McpError InvalidParams msg) \<and>
       (\<exists>k \<in> set (required_args (params_name request)). \<not> truthy (arg request k)) \<and>
       snd (call_tool cmp net request log) = log)
    \<or> (params_name request \<in> set tool_names \<and>
       (\<forall>k \<in> set (required_args (params_name request)). truthy (arg request k)) \<and>
       (\<forall>d m. e \<noteq> AxiosError d m) \<and>
       ((\<exists>c. select request = Operation c) \<longrightarrow> (\<forall>s. e \<noteq> AzureDevOpsError s))))
   \<and> (\<forall>d m detail.
        (\<forall>l q. net l q = Inl (AxiosError d m)) \<and>
        to_string (js_coalesce (opt_prop d ''message'') (JStr m)) = Inr detail \<and>
        snd (call_tool cmp net request log) \<noteq> log \<longrightarrow>
        (\<exists>res q. call_tool cmp net request log = (Inr res, log @ [q]) \<and> isError res))"
proof (intro conjI allI impI)
  fix e
  assume thrown: "fst (call_tool cmp net request log) = Inl e"
  show "(params_name request \<notin> set tool_names \<and>
       e = McpError MethodNotFound (''Unknown tool: '' @ params_name request) \<and>
       snd (call_tool cmp net request log) = log)
    \<or> (params_name request \<in> set tool_names \<and> (\<exists>msg. e = McpError InvalidParams msg) \<and>
       (\<exists>k \<in> set (required_args (params_name request)). \<not> truthy (arg request k)) \<and>
       snd (call_tool cmp net request log) = log)
    \<or> (params_name request \<in> set tool_names \<and>
       (\<forall>k \<in> set (required_args (params_name request)). truthy (arg request k)) \<and>
       (\<forall>d m. e \<noteq> AxiosError d m) \<and>
       ((\<exists>c. select request = Operation c) \<longrightarrow> (\<forall>s. e \<noteq> AzureDevOpsError s)))"
  proof (cases "\<exists>e'. select request = Throw e'")
    case True
    then obtain e' where t: "select request = Throw e'" by blast
    with thrown have "e' = e" by (simp add: call_tool_throw)
    with select_throw[OF t] t show ?thesis by (auto simp: call_tool_throw)
  next
    case False
    then have ok: "params_name request \<in> set tool_names \<and>
         (\<forall>k \<in> set (required_args (params_name request)). truthy (arg request k))"
      by (intro select_not_throw) blast
    have ax: "\<forall>d m. e \<noteq> AxiosError d m"
      using call_tool_not_axios[of cmp net request log] thrown by auto
    have "\<forall>s. e \<noteq> AzureDevOpsError s" if "select request = Operation c" for c
      using thrown that
      by (auto simp: call_tool_operation respond_fst split: sum.splits exn.splits)
    with ok ax show ?thesis by blast
  qed
next
  fix d m detail
  assume "(\<forall>l q. net l q = Inl (AxiosError d m)) \<and>
        to_string (js_coalesce (opt_prop d ''message'') (JStr m)) = Inr detail \<and>
        snd (call_tool cmp net request log) \<noteq> log"
  then show "\<exists>res q. call_tool cmp net request log = (Inr res, log @ [q]) \<and> isError res"
    using call_tool_outage[of net d m detail cmp request log] by auto
qed

theorem thrown_failures_witness:
  "call_tool example_cmp null_net \<lparr>params_name = ''get_projects'', params_arguments = None\<rparr> []
     = (Inl TypeError, [\<lparr>meth = GET, url = ''_apis/projects?api-version=7.1'', body = JUndefined\<rparr>]) \<and>
   params_name \<lparr>params_name = ''get_projects'', params_arguments = None\<rparr> \<in> set tool_names \<and>
   call_tool example_cmp outage_net \<lparr>params_name = ''get_projects'', params_arguments = None\<rparr> []
     = (Inr \<lparr>content = Message ''Azure DevOps API error: Request failed with status code 404'',
             isError = True\<rparr>,
        [\<lparr>meth = GET, url = ''_apis/projects?api-version=7.1'', body = JUndefined\<rparr>])"
  using thrown_failures_classified[of example_cmp null_net
           "\<lparr>params_name = ''get_projects'', params_arguments = None\<rparr>" "[]"]
        thrown_failures_classified[of example_cmp outage_net
           "\<lparr>params_name = ''get_projects'', params_arguments = None\<rparr>" "[]"]
  by (simp add: call_tool_def select_def Let_def respond_inline_def io_defs null_net_def
        outage_net_def api_error_prefix_def tool_names_def catalog_def)

text \<open>
  C3 as stated fails: \<open>get_repositories\<close> is a name of the catalog, and the call
  without arguments ends in a thrown \<open>InvalidParams\<close> error, not in a returned result.
\<close>

theorem fatal_only_unknown_counterexample:
  "params_name \<lparr>params_name = ''get_repositories'', params_arguments = None\<rparr> \<in> set tool_names \<and>
   call_tool example_cmp null_net \<lparr>params_name = ''get_repositories'', params_arguments = None\<rparr> []
     = (Inl (McpError InvalidParams ''project_id is required''), [])"
  by (simp add: call_tool_def select_def Let_def arg_def throw_def tool_names_def catalog_def)

text \<open>
  C4. The translator, which is the \<open>catch\<close> of every operation handler: an error of
  the HTTP library becomes an \<open>AzureDevOpsError\<close> with the text
  \<open>Azure DevOps API error: <detail>\<close>, where the detail is the \<open>message\<close> of the
  response body when the body has one (here: when it is a string) and the library's own
  message when the body has none (\<open>undefined\<close> or \<open>null\<close>); an \<open>AzureDevOpsError\<close>
  and every other error pass through unchanged. Every operation handler ends in it: its
  outcome is never an error of the HTTP library, and when the platform rejects every
  request with \<open>e\<close>, a handler that reaches the network raises the translation of
  \<open>e\<close> after that one request. The call-tool handler then recovers exactly the
  \<open>AzureDevOpsError\<close>, as a returned error result, and throws anything else again. In
  particular a 404 whose body has \<open>message: "not found"\<close> comes back as a returned
  result, marked as an error, whose text contains \<open>not found\<close>.
\<close>

theorem error_translator_contract:
  "(\<forall>s. opt_prop d ''message'' = JStr s \<longrightarrow>
        rewrap (AxiosError d m) = AzureDevOpsError (api_error_prefix @ s))
   \<and> (nullish (opt_prop d ''message'') \<longrightarrow>
        rewrap (AxiosError d m) = AzureDevOpsError (api_error_prefix @ m))
   \<and> rewrap (AzureDevOpsError s) = AzureDevOpsError s
   \<and> ((\<forall>d' m'. e \<noteq> AxiosError d' m') \<longrightarrow> rewrap e = e)
   \<and> try_rewrap (run_op cmp net c) = run_op cmp net c
   \<and> (\<forall>d' m'. fst (run_op cmp net c log) \<noteq> Inl (AxiosError d' m'))
   \<and> ((\<forall>l q. net l q = Inl e) \<and> snd (run_op cmp net c log) \<noteq> log \<longrightarrow>
        (\<exists>q. run_op cmp net c log = (Inl (rewrap e), log @ [q])))
   \<and> (select request = Operation c \<longrightarrow>
        (case fst (run_op cmp net c log) of
           Inl (AzureDevOpsError s') \<Rightarrow>
             fst (call_tool cmp net request log)
               = Inr \<lparr>content = Message (api_error_prefix @ s'), isError = True\<rparr>
         | Inl e' \<Rightarrow> fst (call_tool cmp net request log) = Inl e'
         | Inr v \<Rightarrow>
             fst (call_tool cmp net request log)
               = Inr \<lparr>content = Stringified v, isError = False\<rparr>))
   \<and> (select request = Operation c \<and> (\<forall>l q. net l q = Inl (AxiosError d m)) \<and>
       opt_prop d ''message'' = JStr ''not found'' \<and>
       snd (call_tool cmp net request log) \<noteq> log \<longrightarrow>
        (\<exists>q txt. call_tool cmp net request log
                    = (Inr \<lparr>content = Message txt, isError = True\<rparr>, log @ [q]) \<and>
                  sublist ''not found'' txt))"
proof (intro conjI)
  show "\<forall>s. opt_prop d ''message'' = JStr s \<longrightarrow>
        rewrap (AxiosError d m) = AzureDevOpsError (api_error_prefix @ s)"
    by (simp add: rewrap_def js_coalesce_def)
  show "nullish (opt_prop d ''message'') \<longrightarrow>
        rewrap (AxiosError d m) = AzureDevOpsError (api_error_prefix @ m)"
    by (simp add: rewrap_def js_coalesce_def)
  show "rewrap (AzureDevOpsError s) = AzureDevOpsError s"
    by (simp add: rewrap_def)
  show "(\<forall>d' m'. e \<noteq> AxiosError d' m') \<longrightarrow> rewrap e = e"
    by (simp add: rewrap_other)
  show "try_rewrap (run_op cmp net c) = run_op cmp net c"
    by (rule run_op_try)
  show "\<forall>d' m'. fst (run_op cmp net c log) \<noteq> Inl (AxiosError d' m')"
    by (simp add: run_op_not_axios del: fst_conv)
  show "(\<forall>l q. net l q = Inl e) \<and> snd (run_op cmp net c log) \<noteq> log \<longrightarrow>
        (\<exists>q. run_op cmp net c log = (Inl (rewrap e), log @ [q]))"
    using run_op_outage[of net e cmp c log] by blast
  show "select request = Operation c \<longrightarrow>
        (case fst (run_op cmp net c log) of
           Inl (AzureDevOpsError s') \<Rightarrow>
             fst (call_tool cmp net request log)
               = Inr \<lparr>content = Message (api_error_prefix @ s'), isError = True\<rparr>
         | Inl e' \<Rightarrow> fst (call_tool cmp net request log) = Inl e'
         | Inr v \<Rightarrow>
             fst (call_tool cmp net request log)
               = Inr \<lparr>content = Stringified v, isError = False\<rparr>)"
    by (auto simp: call_tool_operation respond_fst split: sum.splits exn.splits)
  show "select request = Operation c \<and> (\<forall>l q. net l q = Inl (AxiosError d m)) \<and>
       opt_prop d ''message'' = JStr ''not found'' \<and>
       snd (call_tool cmp net request log) \<noteq> log \<longrightarrow>
        (\<exists>q txt. call_tool cmp net request log
                    = (Inr \<lparr>content = Message txt, isError = True\<rparr>, log @ [q]) \<and>
                  sublist ''not found'' txt)"
  proof (intro impI, elim conjE)
    assume op: "select request = Operation c" and net: "\<forall>l q. net l q = Inl (AxiosError d m)"
      and msg: "opt_prop d ''message'' = JStr ''not found''"
      and req: "snd (call_tool cmp net request log) \<noteq> log"
    from msg have "to_string (js_coalesce (opt_prop d ''message'') (JStr m)) = Inr ''not found''"
      by (simp add: js_coalesce_def)
    from call_tool_outage[OF net this req] op not_found_sublist show
      "\<exists>q txt. call_tool cmp net request log
                    = (Inr \<lparr>content = Message txt, isError = True\<rparr>, log @ [q]) \<and>
                  sublist ''not found'' txt"
      by auto
  qed
qed

theorem error_translator_witness:
  "select get_branches_call = Operation (GetBranches (JStr ''P'') (JStr ''R'')) \<and>
   opt_prop (JObj [(''message'', JStr ''not found'')]) ''message'' = JStr ''not found'' \<and>
   rewrap (AxiosError (JObj [(''message'', JStr ''not found'')])
             ''Request failed with status code 404'')
     = AzureDevOpsError ''Azure DevOps API error: not found'' \<and>
   rewrap (AxiosError JUndefined ''Network Error'')
     = AzureDevOpsError ''Azure DevOps API error: Network Error'' \<and>
   rewrap TypeError = TypeError \<and>
   call_tool example_cmp outage_net get_branches_call []
     = (Inr \<lparr>content = Message ''Azure DevOps API error: Azure DevOps API error: not found'',
             isError = True\<rparr>,
        [\<lparr>meth = GET, url = ''P/_apis/git/repositories/R/refs?filter=heads&api-version=7.1'',
          body = JUndefined\<rparr>]) \<and>
   sublist ''not found'' ''Azure DevOps API error: Azure DevOps API error: not found''"
  using error_translator_contract[of "JObj [(''message'', JStr ''not found'')]"
          "''Request failed with status code 404''" "[]" TypeError example_cmp outage_net
          "GetBranches (JStr ''P'') (JStr ''R'')" "[]" get_branches_call]
        error_translator_contract[of JUndefined "''Network Error''" "[]" TypeError example_cmp
          outage_net "GetBranches (JStr ''P'') (JStr ''R'')" "[]" get_branches_call]
        get_branches_outage select_get_branches not_found_sublist
  by (simp add: opt_prop_def api_error_prefix_def)

text \<open>
  C5. For every tool of the catalog that has required arguments, and every invocation
  of it that omits one of them, the handler throws an \<open>InvalidParams\<close> protocol error
  whose message names every required argument of the tool, and the log of requests is
  unchanged: no HTTP request is issued.
\<close>

theorem missing_required_argument_invalid_params:
  assumes "(n, ks) \<in> set catalog" and "k \<in> set ks"
    and "params_name request = n" and "omits request k"
  shows "\<exists>msg. call_tool cmp net request log = (Inl (McpError InvalidParams msg), log) \<and>
           (\<forall>k' \<in> set ks. sublist k' msg)"
proof -
  from assms(4) have "\<not> truthy (arg request k)" by (simp add: omits_arg)
  from select_missing[OF assms(1,2,3) this] obtain msg where
    "select request = Throw (McpError InvalidParams msg)" "\<forall>k' \<in> set ks. sublist k' msg"
    by blast
  then show ?thesis by (auto simp: call_tool_throw)
qed

theorem missing_required_argument_witness:
  "(''create_branch'', [''project_id'', ''repository_id'', ''branch'']) \<in> set catalog \<and>
   omits \<lparr>params_name = ''create_branch'',
          params_arguments = Some [''project_id'' \<mapsto> JStr ''P'', ''repository_id'' \<mapsto> JStr ''R'']\<rparr>
     ''branch'' \<and>
   call_tool example_cmp null_net
     \<lparr>params_name = ''create_branch'',
      params_arguments = Some [''project_id'' \<mapsto> JStr ''P'', ''repository_id'' \<mapsto> JStr ''R'']\<rparr> []
     = (Inl (McpError InvalidParams ''project_id, repository_id, and branch are required''), [])"
proof -
  let ?rq = "\<lparr>params_name = ''create_branch'',
      params_arguments = Some [''project_id'' \<mapsto> JStr ''P'', ''repository_id'' \<mapsto> JStr ''R'']\<rparr>"
  have c: "(''create_branch'', [''project_id'', ''repository_id'', ''branch'']) \<in> set catalog"
    by (simp add: catalog_def)
  have k: "''branch'' \<in> set [''project_id'', ''repository_id'', ''branch'']" by simp
  have n: "params_name ?rq = ''create_branch''" by simp
  have om: "omits ?rq ''branch''" by (simp add: omits_def)
  from missing_required_argument_invalid_params[OF c k n om, of example_cmp null_net "[]"]
  obtain msg where m: "call_tool example_cmp null_net ?rq [] = (Inl (McpError InvalidParams msg), [])"
    by blast
  have "select ?rq
      = Throw (McpError InvalidParams ''project_id, repository_id, and branch are required'')"
    by (simp add: select_def Let_def arg_def)
  then have "call_tool example_cmp null_net ?rq []
      = (Inl (McpError InvalidParams ''project_id, repository_id, and branch are required''), [])"
    by (simp add: call_tool_throw)
  with m c om show ?thesis by simp
qed

text \<open>
  C6. For every invocation whose tool name is not a name of the catalog the handler
  throws the \<open>MethodNotFound\<close> protocol error \<open>Unknown tool: <name>\<close>, whatever the
  arguments, and issues no request; and the chain reaches that last \<open>else\<close> for no name
  of the catalog: a name is matched by equality with one of the catalog's names.
\<close>

theorem unknown_tool_method_not_found:
  "(params_name request \<notin> set tool_names \<longrightarrow>
      call_tool cmp net request log
        = (Inl (McpError MethodNotFound (''Unknown tool: '' @ params_name request)), log))
   \<and> (params_name request \<in> set tool_names \<longrightarrow>
        (\<forall>msg. select request \<noteq> Throw (McpError MethodNotFound msg)))"
  by (simp add: select_unknown call_tool_throw select_known)

theorem unknown_tool_witness:
  "params_name \<lparr>params_name = ''get_project'',
                params_arguments = Some [''project_id'' \<mapsto> JStr ''P'']\<rparr> \<notin> set tool_names \<and>
   call_tool example_cmp null_net
     \<lparr>params_name = ''get_project'', params_arguments = Some [''project_id'' \<mapsto> JStr ''P'']\<rparr> []
     = (Inl (McpError MethodNotFound ''Unknown tool: get_project''), []) \<and>
   params_name \<lparr>params_name = ''get_projects'', params_arguments = None\<rparr> \<in> set tool_names \<and>
   select \<lparr>params_name = ''get_projects'', params_arguments = None\<rparr>
     \<noteq> Throw (McpError MethodNotFound ''Unknown tool: get_projects'')"
  using unknown_tool_method_not_found[of
      "\<lparr>params_name = ''get_project'', params_arguments = Some [''project_id'' \<mapsto> JStr ''P'']\<rparr>"
      example_cmp null_net "[]"]
    unknown_tool_method_not_found[of
      "\<lparr>params_name = ''get_projects'', params_arguments = None\<rparr>" example_cmp null_net "[]"]
  by (simp add: tool_names_def catalog_def)

text \<open>
  C7. \<open>getFileContent\<close> is a function of its arguments and of the platform's answer
  to its one request: when the requests it issued are answered the same by another
  platform, or later, the outcome there is the same and the same requests are issued.
  So a \<open>get_file_content\<close> invocation repeated after the first, with the platform
  answering its request as before, returns the same result (the same value under
  \<open>JSON.stringify\<close>, or the same error text) and issues the same request again.
\<close>

theorem get_file_content_idempotent:
  "(snd (getFileContent net p r f b log) = log @ qs \<and> (\<forall>q \<in> set qs. net' log' q = net log q) \<longrightarrow>
      getFileContent net' p r f b log' = (fst (getFileContent net p r f b log), log' @ qs))
   \<and> (params_name request = ''get_file_content'' \<and>
       snd (call_tool cmp net request log) = log @ qs \<and>
       (\<forall>q \<in> set qs. net (log @ qs) q = net log q) \<longrightarrow>
      call_tool cmp net request (log @ qs)
        = (fst (call_tool cmp net request log), log @ qs @ qs))"
proof (intro conjI impI)
  assume "snd (getFileContent net p r f b log) = log @ qs \<and> (\<forall>q \<in> set qs. net' log' q = net log q)"
  then show "getFileContent net' p r f b log' = (fst (getFileContent net p r f b log), log' @ qs)"
    using getFileContent_same by blast
next
  assume a: "params_name request = ''get_file_content'' \<and>
       snd (call_tool cmp net request log) = log @ qs \<and>
       (\<forall>q \<in> set qs. net (log @ qs) q = net log q)"
  show "call_tool cmp net request (log @ qs)
        = (fst (call_tool cmp net request log), log @ qs @ qs)"
  proof (cases "\<exists>e. select request = Throw e")
    case True
    with a show ?thesis by (auto simp: call_tool_throw)
  next
    case False
    with a have sel: "select request =
        Operation (GetFileContent (arg request ''project_id'') (arg request ''repository_id'')
                     (arg request ''file_path'') (arg request ''branch''))"
      by (auto simp: select_def Let_def split: if_splits)
    let ?h = "getFileContent net (arg request ''project_id'') (arg request ''repository_id'')
                     (arg request ''file_path'') (arg request ''branch'')"
    from sel a have "snd (?h log) = log @ qs"
      by (simp add: call_tool_operation respond_snd)
    from getFileContent_same[OF this, of net "log @ qs"] a
    have "?h (log @ qs) = (fst (?h log), log @ qs @ qs)" by simp
    with sel show ?thesis
      by (cases "?h log") (auto simp add: call_tool_operation respond_def split: sum.splits exn.splits)
  qed
qed

theorem get_file_content_idempotent_witness:
  "params_name get_file_content_call = ''get_file_content'' \<and>
   call_tool example_cmp file_net get_file_content_call []
     = (Inr \<lparr>content = Stringified (JStr ''hello''), isError = False\<rparr>, [file_request]) \<and>
   file_net [file_request] file_request = file_net [] file_request \<and>
   call_tool example_cmp file_net get_file_content_call [file_request]
     = (Inr \<lparr>content = Stringified (JStr ''hello''), isError = False\<rparr>,
        [file_request, file_request]) \<and>
   getFileContent file_net (JStr ''P'') (JStr ''R'') (JStr ''/README.md'') (JStr ''main'') []
     = (Inr (JStr ''hello''), [file_request]) \<and>
   getFileContent file_net (JStr ''P'') (JStr ''R'') (JStr ''/README.md'') (JStr ''main'')
       [file_request]
     = (Inr (JStr ''hello''), [file_request, file_request])"
  using get_file_content_idempotent[where request = get_file_content_call and cmp = example_cmp
          and net = file_net and log = "[]" and qs = "[file_request]" and net' = file_net
          and log' = "[file_request]" and p = "JStr ''P''" and r = "JStr ''R''"
          and f = "JStr ''/README.md''" and b = "JStr ''main''"]
        get_file_content_first
  by (simp add: get_file_content_call_def file_net_def getFileContent_def io_defs
        file_request_def)

text \<open>
  C8. When \<open>AZURE_DEVOPS_ORG_URL\<close> or \<open>AZURE_DEVOPS_API_TOKEN\<close> is absent from the
  environment, module initialisation throws and no server is constructed; and a server
  that is constructed holds both credentials, non-empty, as the environment gives them.
\<close>

theorem missing_credentials_refuse_start:
  "(env ''AZURE_DEVOPS_ORG_URL'' = None \<or> env ''AZURE_DEVOPS_API_TOKEN'' = None \<longrightarrow>
      module_init env
        = Inl (Error (''AZURE_DEVOPS_ORG_URL and AZURE_DEVOPS_API_TOKEN ''
                      @ ''environment variables are required'')))
   \<and> (\<forall>srv. module_init env = Inr srv \<longrightarrow>
         env ''AZURE_DEVOPS_ORG_URL'' = Some (baseURL srv) \<and> baseURL srv \<noteq> [] \<and>
         env ''AZURE_DEVOPS_API_TOKEN'' = Some (api_token srv) \<and> api_token srv \<noteq> [])"
  by (auto simp: module_init_def env_truthy_def Let_def split: option.splits if_splits)

theorem missing_credentials_witness:
  "[''AZURE_DEVOPS_ORG_URL'' \<mapsto> ''https://dev.azure.com/org''] ''AZURE_DEVOPS_API_TOKEN'' = None \<and>
   module_init [''AZURE_DEVOPS_ORG_URL'' \<mapsto> ''https://dev.azure.com/org'']
     = Inl (Error (''AZURE_DEVOPS_ORG_URL and AZURE_DEVOPS_API_TOKEN ''
                   @ ''environment variables are required'')) \<and>
   module_init [''AZURE_DEVOPS_ORG_URL'' \<mapsto> ''https://dev.azure.com/org'',
                ''AZURE_DEVOPS_API_TOKEN'' \<mapsto> ''pat'']
     = Inr \<lparr>server_name = ''azure-devops-server'', baseURL = ''https://dev.azure.com/org'',
            api_token = ''pat''\<rparr>"
  using missing_credentials_refuse_start[of "[''AZURE_DEVOPS_ORG_URL'' \<mapsto> ''https://dev.azure.com/org'']"]
  by (simp add: module_init_def env_truthy_def)

text \<open>
  C9. The check of a required argument is a truthiness test, not a test that the key
  is there: for every tool of the catalog with required arguments, an invocation that
  gives one of them the empty string is rejected with the same \<open>InvalidParams\<close> error,
  and as little network traffic, as the invocation with that key removed.
\<close>

theorem empty_string_rejected_as_absent:
  assumes "(n, ks) \<in> set catalog" and "k \<in> set ks" and "params_name request = n"
    and "params_arguments request = Some m" and "m k = Some (JStr [])"
  shows "\<exists>msg. call_tool cmp net request log = (Inl (McpError InvalidParams msg), log) \<and>
           call_tool cmp net (request\<lparr>params_arguments := Some (m(k := None))\<rparr>) log
             = (Inl (McpError InvalidParams msg), log)"
proof -
  let ?absent = "request\<lparr>params_arguments := Some (m(k := None))\<rparr>"
  have falsy: "\<not> truthy (arg request k)"
    using assms(4,5) by (simp add: arg_def)
  have falsy': "\<not> truthy (arg ?absent k)"
    by (simp add: arg_def)
  have n': "params_name ?absent = n" using assms(3) by simp
  from select_missing[OF assms(1,2,3) falsy] obtain msg where
    a: "select request = Throw (McpError InvalidParams msg)"
    and b: "select \<lparr>params_name = n, params_arguments = None\<rparr> = Throw (McpError InvalidParams msg)"
    by blast
  from select_missing[OF assms(1,2) n' falsy'] b
  have "select ?absent = Throw (McpError InvalidParams msg)" by auto
  with a show ?thesis by (auto simp: call_tool_throw)
qed

theorem empty_string_rejected_witness:
  "(''get_repositories'', [''project_id'']) \<in> set catalog \<and>
   [''project_id'' \<mapsto> JStr []] ''project_id'' = Some (JStr []) \<and>
   call_tool example_cmp null_net
     \<lparr>params_name = ''get_repositories'', params_arguments = Some [''project_id'' \<mapsto> JStr []]\<rparr> []
     = (Inl (McpError InvalidParams ''project_id is required''), []) \<and>
   call_tool example_cmp null_net
     \<lparr>params_name = ''get_repositories'', params_arguments = Some Map.empty\<rparr> []
     = (Inl (McpError InvalidParams ''project_id is required''), [])"
proof -
  let ?m = "[''project_id'' \<mapsto> JStr []]"
  let ?rq = "\<lparr>params_name = ''get_repositories'', params_arguments = Some ?m\<rparr>"
  have c: "(''get_repositories'', [''project_id'']) \<in> set catalog"
    by (simp add: catalog_def)
  have k: "''project_id'' \<in> set [''project_id'']" by simp
  have n: "params_name ?rq = ''get_repositories''" by simp
  have a: "params_arguments ?rq = Some ?m" by simp
  have v: "?m ''project_id'' = Some (JStr [])" by simp
  from empty_string_rejected_as_absent[OF c k n a v, of example_cmp null_net "[]"]
  obtain msg where
    m1: "call_tool example_cmp null_net ?rq [] = (Inl (McpError InvalidParams msg), [])" and
    m2: "call_tool example_cmp null_net (?rq\<lparr>params_arguments := Some (?m(''project_id'' := None))\<rparr>) []
           = (Inl (McpError InvalidParams msg), [])"
    by blast
  have "select ?rq = Throw (McpError InvalidParams ''project_id is required'')"
    by (simp add: select_def Let_def arg_def)
  then have "call_tool example_cmp null_net ?rq []
      = (Inl (McpError InvalidParams ''project_id is required''), [])"
    by (simp add: call_tool_throw)
  with m1 m2 c v show ?thesis by simp
qed

text \<open>
  C10. For a tool that runs an operation handler (every tool of the catalog but
  \<open>get_projects\<close> and \<open>get_repositories\<close>, once its required arguments are there):
  when the handler raises the \<open>AzureDevOpsError\<close> with the message
  \<open>Azure DevOps API error: <detail>\<close>, the text returned to the client is
  \<open>Azure DevOps API error: Azure DevOps API error: <detail>\<close>; and that is what a
  call that reaches the network returns when the platform rejects every request with an
  HTTP error of that detail.
\<close>

theorem api_error_prefix_twice:
  "(select request = Operation c \<longrightarrow>
      (\<forall>detail. fst (run_op cmp net c log) = Inl (AzureDevOpsError (api_error_prefix @ detail)) \<longrightarrow>
         fst (call_tool cmp net request log)
           = Inr \<lparr>content = Message (api_error_prefix @ api_error_prefix @ detail),
                  isError = True\<rparr>))
   \<and> (select request = Operation c \<and> (\<forall>l q. net l q = Inl (AxiosError d m)) \<and>
       to_string (js_coalesce (opt_prop d ''message'') (JStr m)) = Inr detail \<and>
       snd (call_tool cmp net request log) \<noteq> log \<longrightarrow>
         fst (call_tool cmp net request log)
           = Inr \<lparr>content = Message (api_error_prefix @ api_error_prefix @ detail),
                  isError = True\<rparr>)
   \<and> (params_name request \<in> set tool_names \<and> params_name request \<noteq> ''get_projects'' \<and>
       params_name request \<noteq> ''get_repositories'' \<and>
       (\<forall>k \<in> set (required_args (params_name request)). truthy (arg request k)) \<longrightarrow>
         (\<exists>c. select request = Operation c))"
proof (intro conjI)
  show "select request = Operation c \<longrightarrow>
      (\<forall>detail. fst (run_op cmp net c log) = Inl (AzureDevOpsError (api_error_prefix @ detail)) \<longrightarrow>
         fst (call_tool cmp net request log)
           = Inr \<lparr>content = Message (api_error_prefix @ api_error_prefix @ detail),
                  isError = True\<rparr>)"
    by (simp add: call_tool_operation respond_fst)
  show "select request = Operation c \<and> (\<forall>l q. net l q = Inl (AxiosError d m)) \<and>
       to_string (js_coalesce (opt_prop d ''message'') (JStr m)) = Inr detail \<and>
       snd (call_tool cmp net request log) \<noteq> log \<longrightarrow>
         fst (call_tool cmp net request log)
           = Inr \<lparr>content = Message (api_error_prefix @ api_error_prefix @ detail),
                  isError = True\<rparr>"
    using call_tool_outage[of net d m detail cmp request log] by auto
  show "params_name request \<in> set tool_names \<and> params_name request \<noteq> ''get_projects'' \<and>
       params_name request \<noteq> ''get_repositories'' \<and>
       (\<forall>k \<in> set (required_args (params_name request)). truthy (arg request k)) \<longrightarrow>
         (\<exists>c. select request = Operation c)"
    using select_operation[of request] by blast
qed

theorem api_error_prefix_twice_witness:
  "select create_branch_call
     = Operation (CreateBranch (JStr ''P'') (JStr ''R'') (JStr ''feature-x'') JUndefined) \<and>
   run_op example_cmp outage_net
       (CreateBranch (JStr ''P'') (JStr ''R'') (JStr ''feature-x'') JUndefined) []
     = (Inl (AzureDevOpsError ''Azure DevOps API error: not found''),
        [\<lparr>meth = GET, url = ''P/_apis/git/repositories/R?api-version=7.1'', body = JUndefined\<rparr>]) \<and>
   call_tool example_cmp outage_net create_branch_call []
     = (Inr \<lparr>content = Message ''Azure DevOps API error: Azure DevOps API error: not found'',
             isError = True\<rparr>,
        [\<lparr>meth = GET, url = ''P/_apis/git/repositories/R?api-version=7.1'', body = JUndefined\<rparr>])"
  using api_error_prefix_twice[of create_branch_call
          "CreateBranch (JStr ''P'') (JStr ''R'') (JStr ''feature-x'') JUndefined"
          example_cmp outage_net "[]" "JObj [(''message'', JStr ''not found'')]"
          "''Request failed with status code 404''" "''not found''"]
  by (simp add: call_tool_def select_create_branch respond_def createBranch_def
        getDefaultBranch_def io_defs outage_net_def rewrap_def opt_prop_def js_coalesce_def
        api_error_prefix_def)

end
